theory Spec2Isabelle
  imports Main
begin

text \<open>
  The users and assets handlers of the serverless backend (TypeScript), as functions on an
  explicit state: the table of the key-value store, the clock, and what the environment does at
  each store call (a transient failure, a concurrent writer). A handler returns the new state
  and either the error it throws or its response.
\<close>

section \<open>JavaScript values\<close>

text \<open>
  The request body is \<^verbatim>\<open>any\<close>: whatever \<^verbatim>\<open>JSON.parse\<close> returns. Its values, together with
  \<^verbatim>\<open>undefined\<close> (the result of reading a property that is not there), are the values the
  handlers pass around. Numbers are restricted to integers here; an object is the list of its
  properties in enumeration order; strings are lists of 8-bit characters.
\<close>

datatype json =
    JUndefined
  | JNull
  | JBool bool
  | JNum int
  | JStr string
  | JArr "json list"
  | JObj "(string \<times> json) list"

type_synonym item = "(string \<times> json) list"

text \<open>A thrown error; the handlers only ever look at its \<^verbatim>\<open>name\<close>.\<close>

datatype exn = Exn (name: string)

text \<open>JavaScript truthiness, as used by \<^verbatim>\<open>!x\<close>, \<^verbatim>\<open>x || d\<close> and \<^verbatim>\<open>if (x)\<close>.\<close>

fun truthy :: "json \<Rightarrow> bool" where
  "truthy JUndefined = False"
| "truthy JNull = False"
| "truthy (JBool b) = b"
| "truthy (JNum n) = (n \<noteq> 0)"
| "truthy (JStr s) = (s \<noteq> [])"
| "truthy (JArr xs) = True"
| "truthy (JObj fs) = True"

text \<open>Reading a property of an object: the value, or \<^verbatim>\<open>undefined\<close> when it is not there.\<close>

definition field :: "item \<Rightarrow> string \<Rightarrow> json" where
  "field it k = (case map_of it k of None \<Rightarrow> JUndefined | Some v \<Rightarrow> v)"

text \<open>
  Reading a property \<^verbatim>\<open>v.k\<close>. On \<^verbatim>\<open>null\<close> and \<^verbatim>\<open>undefined\<close> it throws a TypeError; on an
  object it gives the property or \<^verbatim>\<open>undefined\<close>; on the other values it gives \<^verbatim>\<open>undefined\<close>
  for every property name the handlers read.
\<close>

fun get_prop :: "json \<Rightarrow> string \<Rightarrow> exn + json" where
  "get_prop JUndefined k = Inl (Exn ''TypeError'')"
| "get_prop JNull k = Inl (Exn ''TypeError'')"
| "get_prop (JObj fs) k = Inr (field fs k)"
| "get_prop (JBool b) k = Inr JUndefined"
| "get_prop (JNum n) k = Inr JUndefined"
| "get_prop (JStr s) k = Inr JUndefined"
| "get_prop (JArr xs) k = Inr JUndefined"

text \<open>
  Decimal numerals, for array indices and for numbers inside template literals (where
  JavaScript prints an integer of magnitude below \<open>10\<^sup>2\<^sup>1\<close> in this way).
\<close>

definition digit :: "nat \<Rightarrow> char" where
  "digit n = ''0123456789'' ! n"

function dec :: "nat \<Rightarrow> string" where
  "dec n = (if n < 10 then [digit n] else dec (n div 10) @ [digit (n mod 10)])"
  by pat_completeness auto
termination
  by (relation "measure (\<lambda>n. n)") auto

declare dec.simps [simp del]

text \<open>\<^verbatim>\<open>Object.entries(v)\<close>: own enumerable properties; throws on \<^verbatim>\<open>null\<close> and \<^verbatim>\<open>undefined\<close>.\<close>

fun entries :: "json \<Rightarrow> exn + (string \<times> json) list" where
  "entries JUndefined = Inl (Exn ''TypeError'')"
| "entries JNull = Inl (Exn ''TypeError'')"
| "entries (JObj fs) = Inr fs"
| "entries (JArr xs) = Inr (zip (map dec [0..<length xs]) xs)"
| "entries (JStr cs) = Inr (zip (map dec [0..<length cs]) (map (\<lambda>c. JStr [c]) cs))"
| "entries (JBool b) = Inr []"
| "entries (JNum n) = Inr []"

text \<open>
  Conversion to a string inside a template literal. An array joins its elements with commas,
  \<^verbatim>\<open>null\<close> and \<^verbatim>\<open>undefined\<close> elements giving the empty string.
\<close>

fun ToString :: "json \<Rightarrow> string" and join :: "json list \<Rightarrow> string" where
  "ToString JUndefined = ''undefined''"
| "ToString JNull = ''null''"
| "ToString (JBool b) = (if b then ''true'' else ''false'')"
| "ToString (JNum n) = (if n < 0 then ''-'' @ dec (nat (- n)) else dec (nat n))"
| "ToString (JStr s) = s"
| "ToString (JArr xs) = join xs"
| "ToString (JObj fs) = ''[object Object]''"
| "join [] = []"
| "join (x # xs) =
     (if x = JNull \<or> x = JUndefined then [] else ToString x) @
     (if xs = [] then [] else '','' @ join xs)"

text \<open>\<^verbatim>\<open>obj[k] = v\<close>: overwrite the property in place, or append it.\<close>

fun assign :: "string \<Rightarrow> json \<Rightarrow> item \<Rightarrow> item" where
  "assign k v [] = [(k, v)]"
| "assign k v ((k', v') # fs) = (if k' = k then (k, v) # fs else (k', v') # assign k v fs)"

section \<open>The key-value store and the clock\<close>

text \<open>
  One table, whose partition key is a string attribute. A command names its key as the pair of
  the key attribute and its value. \<^verbatim>\<open>PutCommand\<close> carries the item and the attribute of its
  condition \<^verbatim>\<open>attribute_not_exists(a)\<close>; \<^verbatim>\<open>UpdateCommand\<close> carries the clauses of its
  \<^verbatim>\<open>SET\<close> expression, each an attribute and a placeholder, and the placeholder values, and
  returns \<^verbatim>\<open>ALL_NEW\<close>.
\<close>

datatype command =
    GetCommand "string \<times> json"
  | PutCommand item string
  | UpdateCommand "string \<times> json" "(string \<times> string) list" item
  | DeleteCommand "string \<times> json"

record cmd_output =
  Item :: "item option"
  Attributes :: "item option"

text \<open>
  What the rest of the world does at one call of the store: nothing, make the call throw an
  error of a given name, or let another client write or delete a record just before the call
  takes effect.
\<close>

datatype env_step =
    Quiet
  | Throw string
  | OtherPut string item
  | OtherDelete string

text \<open>
  The state one invocation runs in: the table, the clock in milliseconds, what the environment
  will do at the coming store calls (nothing once the list is used up), and two logs: the
  durations slept and the commands sent, in order. The last field says which attribute names
  the store refuses when an expression writes them bare: its reserved words (\<^verbatim>\<open>name\<close>,
  \<^verbatim>\<open>status\<close> and \<^verbatim>\<open>ttl\<close> are among DynamoDB's) and the names that are not plain identifiers.
  The list of these names is not part of the repository, so it is a parameter of the state.
\<close>

record world =
  table :: "string \<rightharpoonup> item"
  clock :: nat
  script :: "env_step list"
  slept :: "nat list"
  sent :: "command list"
  refuses :: "string \<Rightarrow> bool"

definition env_next :: "world \<Rightarrow> env_step" where
  "env_next s = (case script s of [] \<Rightarrow> Quiet | e # es \<Rightarrow> e)"

fun interfere :: "env_step \<Rightarrow> (string \<rightharpoonup> item) \<Rightarrow> (string \<rightharpoonup> item)" where
  "interfere (OtherPut k it) t = t(k \<mapsto> it)"
| "interfere (OtherDelete k) t = t(k := None)"
| "interfere Quiet t = t"
| "interfere (Throw n) t = t"

definition attribute_exists :: "item option \<Rightarrow> string \<Rightarrow> bool" where
  "attribute_exists old a = (case old of None \<Rightarrow> False | Some it \<Rightarrow> map_of it a \<noteq> None)"

text \<open>
  The store accepts a \<^verbatim>\<open>SET\<close> expression only if no attribute is named by two of its clauses
  (two document paths may not overlap) and none of the attribute names is one it refuses.
  Otherwise the call throws a \<^verbatim>\<open>ValidationException\<close> and nothing is written.
\<close>

definition accepted :: "world \<Rightarrow> (string \<times> string) list \<Rightarrow> bool" where
  "accepted s clauses =
     (distinct (map fst clauses) \<and> list_all (\<lambda>(a, p). \<not> refuses s a) clauses)"

text \<open>
  The \<^verbatim>\<open>SET\<close> clauses of an accepted expression, applied one by one. A placeholder without a
  value is refused.
\<close>

fun apply_set :: "(string \<times> string) list \<Rightarrow> item \<Rightarrow> item \<Rightarrow> item option" where
  "apply_set [] vals it = Some it"
| "apply_set ((a, p) # cs) vals it =
     (case map_of vals p of
        None \<Rightarrow> None
      | Some v \<Rightarrow> apply_set cs vals (assign a v it))"

definition no_output :: cmd_output where
  "no_output = \<lparr>Item = None, Attributes = None\<rparr>"

fun exec :: "command \<Rightarrow> world \<Rightarrow> world \<times> (exn + cmd_output)" where
  "exec (GetCommand (a, JStr k)) s = (s, Inr \<lparr>Item = table s k, Attributes = None\<rparr>)"
| "exec (PutCommand it a) s =
     (case map_of it a of
        Some (JStr k) \<Rightarrow>
          (if attribute_exists (table s k) a
           then (s, Inl (Exn ''ConditionalCheckFailedException''))
           else (s\<lparr>table := (table s)(k \<mapsto> it)\<rparr>, Inr no_output))
      | _ \<Rightarrow> (s, Inl (Exn ''ValidationException'')))"
| "exec (UpdateCommand (a, JStr k) clauses vals) s =
     (if accepted s clauses then
        (case apply_set clauses vals (case table s k of None \<Rightarrow> [(a, JStr k)] | Some it \<Rightarrow> it) of
           None \<Rightarrow> (s, Inl (Exn ''ValidationException''))
         | Some new \<Rightarrow>
             (s\<lparr>table := (table s)(k \<mapsto> new)\<rparr>, Inr \<lparr>Item = None, Attributes = Some new\<rparr>))
      else (s, Inl (Exn ''ValidationException'')))"
| "exec (DeleteCommand (a, JStr k)) s = (s\<lparr>table := (table s)(k := None)\<rparr>, Inr no_output)"
| "exec (GetCommand (a, v)) s = (s, Inl (Exn ''ValidationException''))"
| "exec (UpdateCommand (a, v) clauses vals) s = (s, Inl (Exn ''ValidationException''))"
| "exec (DeleteCommand (a, v)) s = (s, Inl (Exn ''ValidationException''))"

text \<open>\<^verbatim>\<open>docClient.send(command)\<close>: the call is logged, the environment moves, the command runs.\<close>

definition send :: "command \<Rightarrow> world \<Rightarrow> world \<times> (exn + cmd_output)" where
  "send c s =
     (let s1 = s\<lparr>script := tl (script s), sent := sent s @ [c]\<rparr> in
      case env_next s of
        Throw n \<Rightarrow> (s1, Inl (Exn n))
      | e \<Rightarrow> exec c (s1\<lparr>table := interfere e (table s1)\<rparr>))"

definition sleep :: "nat \<Rightarrow> world \<Rightarrow> world" where
  "sleep ms s = s\<lparr>clock := clock s + ms, slept := slept s @ [ms]\<rparr>"

text \<open>\<^verbatim>\<open>Math.floor(Date.now() / 1000)\<close>\<close>

definition now_seconds :: "world \<Rightarrow> int" where
  "now_seconds s = int (clock s div 1000)"

section \<open>Responses and events\<close>

text \<open>
  The \<open>body\<close> of a response is the value the handler hands to \<^verbatim>\<open>JSON.stringify\<close>.
\<close>

record response =
  statusCode :: nat
  body :: json

definition error_body :: "string \<Rightarrow> json" where
  "error_body msg = JObj [(''error'', JStr msg)]"

text \<open>Of the gateway's event the handlers read the method, the path parameters and the raw body.\<close>

record event =
  httpMethod :: string
  pathParameters :: "(string \<times> string) list option"
  rawBody :: "string option"

text \<open>
  \<^verbatim>\<open>event.body ? JSON.parse(event.body) : {}\<close>. The parser is a parameter; where it gives
  \<open>None\<close>, \<^verbatim>\<open>JSON.parse\<close> throws a SyntaxError.
\<close>

definition parse_body :: "(string \<Rightarrow> json option) \<Rightarrow> event \<Rightarrow> exn + json" where
  "parse_body JSON_parse ev =
     (case rawBody ev of
        None \<Rightarrow> Inr (JObj [])
      | Some b \<Rightarrow>
          (if b = [] then Inr (JObj [])
           else (case JSON_parse b of
                   None \<Rightarrow> Inl (Exn ''SyntaxError'')
                 | Some v \<Rightarrow> Inr v)))"

text \<open>\<^verbatim>\<open>(event.pathParameters || {})[k]\<close>\<close>

definition path_param :: "event \<Rightarrow> string \<Rightarrow> string option" where
  "path_param ev k = (case pathParameters ev of None \<Rightarrow> None | Some ps \<Rightarrow> map_of ps k)"

text \<open>The \<^verbatim>\<open>catch\<close> of both handlers: whatever was thrown becomes the generic 500.\<close>

definition catch_all :: "world \<times> (exn + response) \<Rightarrow> world \<times> (exn + response)" where
  "catch_all r =
     (case r of
        (s, Inl error) \<Rightarrow> (s, Inr \<lparr>statusCode = 500, body = error_body ''Internal server error''\<rparr>)
      | (s, Inr resp) \<Rightarrow> (s, Inr resp))"

definition method_not_allowed :: response where
  "method_not_allowed = \<lparr>statusCode = 405, body = error_body ''Method not allowed''\<rparr>"

section \<open>The users handler\<close>

definition retries :: nat where
  "retries = 3"

definition backoff :: nat where
  "backoff = 100"

definition user_key :: "json \<Rightarrow> string \<times> json" where
  "user_key userId = (''userId'', userId)"

definition fallback_response :: response where
  "fallback_response = \<lparr>statusCode = 500, body = error_body ''Failed to get user''\<rparr>"

text \<open>
  The loop of \<^verbatim>\<open>getUser\<close>, from a given value of \<^verbatim>\<open>attempt\<close>. A failed call sleeps
  \<^verbatim>\<open>backoff * Math.pow(2, attempt)\<close> and continues unless it was the last attempt, in which
  case the error is thrown again. The response after the loop is the last branch.
\<close>

function getUser_loop :: "nat \<Rightarrow> string \<Rightarrow> world \<Rightarrow> world \<times> (exn + response)" where
  "getUser_loop attempt userId s =
     (if attempt < retries then
        (case send (GetCommand (user_key (JStr userId))) s of
           (s1, Inr resp) \<Rightarrow>
             (case Item resp of
                None \<Rightarrow> (s1, Inr \<lparr>statusCode = 404, body = error_body ''User not found''\<rparr>)
              | Some it \<Rightarrow> (s1, Inr \<lparr>statusCode = 200, body = JObj it\<rparr>))
         | (s1, Inl error) \<Rightarrow>
             (if attempt < retries - 1
              then getUser_loop (attempt + 1) userId (sleep (backoff * 2 ^ attempt) s1)
              else (s1, Inl error)))
      else (s, Inr fallback_response))"
  by pat_completeness auto
termination
  by (relation "measure (\<lambda>(attempt, userId, s). retries - attempt)") auto

declare getUser_loop.simps [simp del]

definition getUser :: "string \<Rightarrow> world \<Rightarrow> world \<times> (exn + response)" where
  "getUser userId s = getUser_loop 0 userId s"

text \<open>The record \<^verbatim>\<open>createUser\<close> writes: the four fixed fields, then the optional ones if truthy.\<close>

definition new_user :: "json \<Rightarrow> json \<Rightarrow> json \<Rightarrow> json \<Rightarrow> int \<Rightarrow> item" where
  "new_user userId email nm department now =
     [(''userId'', userId), (''email'', email),
      (''createdAt'', JNum now), (''ttl'', JNum (now + 90 * 24 * 60 * 60))]
     @ (if truthy nm then [(''name'', nm)] else [])
     @ (if truthy department then [(''department'', department)] else [])"

definition user_exists_response :: "item \<Rightarrow> response" where
  "user_exists_response it =
     \<lparr>statusCode = 200, body = JObj [(''message'', JStr ''User already exists''), (''user'', JObj it)]\<rparr>"

text \<open>The \<^verbatim>\<open>try\<close> block of \<^verbatim>\<open>createUser\<close>.\<close>

definition createUser_try :: "json \<Rightarrow> json \<Rightarrow> json \<Rightarrow> world \<Rightarrow> world \<times> (exn + response)" where
  "createUser_try userId email payload s =
     (case send (GetCommand (user_key userId)) s of
        (s1, Inl error) \<Rightarrow> (s1, Inl error)
      | (s1, Inr existing) \<Rightarrow>
          (case Item existing of
             Some it \<Rightarrow> (s1, Inr (user_exists_response it))
           | None \<Rightarrow>
               (case get_prop payload ''name'' of
                  Inl error \<Rightarrow> (s1, Inl error)
                | Inr nm \<Rightarrow>
               (case get_prop payload ''department'' of
                  Inl error \<Rightarrow> (s1, Inl error)
                | Inr department \<Rightarrow>
                    (let item = new_user userId email nm department (now_seconds s1) in
                     case send (PutCommand item ''userId'') s1 of
                       (s2, Inl error) \<Rightarrow> (s2, Inl error)
                     | (s2, Inr done) \<Rightarrow>
                         (s2, Inr \<lparr>statusCode = 201,
                                   body = JObj [(''message'', JStr ''User created''),
                                                (''user'', JObj item)]\<rparr>))))))"

text \<open>The \<^verbatim>\<open>catch\<close> block of \<^verbatim>\<open>createUser\<close>, entered with the error thrown in the \<^verbatim>\<open>try\<close> block.\<close>

definition createUser_catch :: "json \<Rightarrow> exn \<Rightarrow> world \<Rightarrow> world \<times> (exn + response)" where
  "createUser_catch userId error s =
     (if name error = ''ConditionalCheckFailedException'' then
        (case send (GetCommand (user_key userId)) s of
           (s1, Inl error') \<Rightarrow> (s1, Inl error')
         | (s1, Inr existing) \<Rightarrow>
             (case Item existing of
                Some it \<Rightarrow> (s1, Inr (user_exists_response it))
              | None \<Rightarrow> (s1, Inl error)))
      else (s, Inl error))"

definition createUser :: "json \<Rightarrow> world \<Rightarrow> world \<times> (exn + response)" where
  "createUser payload s =
     (case get_prop payload ''userId'' of
        Inl error \<Rightarrow> (s, Inl error)
      | Inr userId \<Rightarrow>
     (case get_prop payload ''email'' of
        Inl error \<Rightarrow> (s, Inl error)
      | Inr email \<Rightarrow>
          (if \<not> truthy userId \<or> \<not> truthy email
           then (s, Inr \<lparr>statusCode = 400, body = error_body ''userId and email are required''\<rparr>)
           else
             (case createUser_try userId email payload s of
                (s1, Inl error) \<Rightarrow> createUser_catch userId error s1
              | (s1, Inr resp) \<Rightarrow> (s1, Inr resp)))))"

text \<open>
  The loop of \<^verbatim>\<open>updateUser\<close> over \<^verbatim>\<open>Object.entries(body)\<close>: every key but \<^verbatim>\<open>userId\<close> adds
  the clause \<^verbatim>\<open>key = :key\<close> to \<^verbatim>\<open>updateExpr\<close> and assigns \<^verbatim>\<open>exprAttr[':key']\<close>, where the
  placeholder \<^verbatim>\<open>:key\<close> is the template literal \<^verbatim>\<open>`:${key}`\<close>.
\<close>

definition placeholder :: "string \<Rightarrow> string" where
  "placeholder key = '':'' @ key"

fun updateUser_loop :: "(string \<times> json) list \<Rightarrow> (string \<times> string) list \<times> item \<Rightarrow> (string \<times> string) list \<times> item" where
  "updateUser_loop [] acc = acc"
| "updateUser_loop ((key, v) # rest) (updateExpr, exprAttr) =
     (if key \<noteq> ''userId''
      then updateUser_loop rest (updateExpr @ [(key, placeholder key)], assign (placeholder key) v exprAttr)
      else updateUser_loop rest (updateExpr, exprAttr))"

text \<open>The expression and the placeholder values \<^verbatim>\<open>updateUser\<close> puts in its command.\<close>

definition update_request :: "int \<Rightarrow> (string \<times> json) list \<Rightarrow> (string \<times> string) list \<times> item" where
  "update_request now es =
     updateUser_loop es ([(''updatedAt'', '':updatedAt'')], [('':updatedAt'', JNum now)])"

text \<open>The entries of the body the loop acts on.\<close>

definition supplied :: "(string \<times> json) list \<Rightarrow> (string \<times> json) list" where
  "supplied es = filter (\<lambda>(k, v). k \<noteq> ''userId'') es"

definition updateUser :: "string \<Rightarrow> json \<Rightarrow> world \<Rightarrow> world \<times> (exn + response)" where
  "updateUser userId payload s =
     (case send (GetCommand (user_key (JStr userId))) s of
        (s1, Inl error) \<Rightarrow> (s1, Inl error)
      | (s1, Inr existing) \<Rightarrow>
          (case Item existing of
             None \<Rightarrow> (s1, Inr \<lparr>statusCode = 404, body = error_body ''User not found''\<rparr>)
           | Some it \<Rightarrow>
               (case entries payload of
                  Inl error \<Rightarrow> (s1, Inl error)
                | Inr es \<Rightarrow>
                    (case update_request (now_seconds s1) es of
                       (updateExpr, exprAttr) \<Rightarrow>
                         (case send (UpdateCommand (user_key (JStr userId)) updateExpr exprAttr) s1 of
                            (s2, Inl error) \<Rightarrow> (s2, Inl error)
                          | (s2, Inr resp) \<Rightarrow>
                              (s2, Inr \<lparr>statusCode = 200,
                                        body = (case Attributes resp of
                                                  None \<Rightarrow> JUndefined
                                                | Some a \<Rightarrow> JObj a)\<rparr>))))))"

definition deleteUser :: "string \<Rightarrow> world \<Rightarrow> world \<times> (exn + response)" where
  "deleteUser userId s =
     (case send (DeleteCommand (user_key (JStr userId))) s of
        (s1, Inl error) \<Rightarrow> (s1, Inl error)
      | (s1, Inr done) \<Rightarrow>
          (s1, Inr \<lparr>statusCode = 200, body = JObj [(''message'', JStr ''User deleted successfully'')]\<rparr>))"

text \<open>
  The \<^verbatim>\<open>switch\<close> of the users handler. A path parameter that is absent or empty fails
  \<^verbatim>\<open>if (userId)\<close> and the request falls through to the 405.
\<close>

definition users_switch :: "string \<Rightarrow> string option \<Rightarrow> json \<Rightarrow> world \<Rightarrow> world \<times> (exn + response)" where
  "users_switch method userId payload s =
     (if method = ''GET'' then
        (case userId of
           Some u \<Rightarrow> if u \<noteq> [] then getUser u s else (s, Inr method_not_allowed)
         | None \<Rightarrow> (s, Inr method_not_allowed))
      else if method = ''POST'' then createUser payload s
      else if method = ''PUT'' then
        (case userId of
           Some u \<Rightarrow> if u \<noteq> [] then updateUser u payload s else (s, Inr method_not_allowed)
         | None \<Rightarrow> (s, Inr method_not_allowed))
      else if method = ''DELETE'' then
        (case userId of
           Some u \<Rightarrow> if u \<noteq> [] then deleteUser u s else (s, Inr method_not_allowed)
         | None \<Rightarrow> (s, Inr method_not_allowed))
      else (s, Inr method_not_allowed))"

text \<open>
  The users handler. The body is parsed before the \<^verbatim>\<open>try\<close> block is entered, so what the
  parser throws leaves the handler; what the \<^verbatim>\<open>switch\<close> throws is caught.
\<close>

definition users_handler :: "(string \<Rightarrow> json option) \<Rightarrow> event \<Rightarrow> world \<Rightarrow> world \<times> (exn + response)" where
  "users_handler JSON_parse ev s =
     (case parse_body JSON_parse ev of
        Inl error \<Rightarrow> (s, Inl error)
      | Inr payload \<Rightarrow> catch_all (users_switch (httpMethod ev) (path_param ev ''id'') payload s))"

section \<open>The assets handler\<close>

text \<open>
  The object store enters only through \<^verbatim>\<open>getSignedUrl\<close>, a parameter here: given the command
  and the expiry in seconds it gives the URL or throws.
\<close>

datatype s3_command =
    PutObjectCommand json json json
  | GetObjectCommand json json

type_synonym presigner = "s3_command \<Rightarrow> nat \<Rightarrow> exn + string"

definition asset_key :: "json \<Rightarrow> string \<times> json" where
  "asset_key assetId = (''assetId'', assetId)"

definition asset_exists_response :: "item \<Rightarrow> response" where
  "asset_exists_response it =
     \<lparr>statusCode = 200, body = JObj [(''message'', JStr ''Asset already exists''), (''asset'', JObj it)]\<rparr>"

definition new_asset :: "string \<Rightarrow> json \<Rightarrow> json \<Rightarrow> json \<Rightarrow> string \<Rightarrow> int \<Rightarrow> item" where
  "new_asset bucketName assetId fileName contentType s3Key now =
     [(''assetId'', assetId), (''fileName'', fileName), (''contentType'', contentType),
      (''s3Key'', JStr s3Key), (''s3Bucket'', JStr bucketName), (''status'', JStr ''pending''),
      (''createdAt'', JNum now), (''ttl'', JNum (now + 30 * 24 * 60 * 60))]"

text \<open>The template literal \<^verbatim>\<open>`assets/${assetId}/${fileName}`\<close>.\<close>

definition s3_key :: "json \<Rightarrow> json \<Rightarrow> string" where
  "s3_key assetId fileName = ''assets/'' @ ToString assetId @ ''/'' @ ToString fileName"

text \<open>The \<^verbatim>\<open>try\<close> block of \<^verbatim>\<open>uploadAsset\<close>.\<close>

definition uploadAsset_try :: "presigner \<Rightarrow> string \<Rightarrow> json \<Rightarrow> json \<Rightarrow> json \<Rightarrow> world \<Rightarrow> world \<times> (exn + response)" where
  "uploadAsset_try getSignedUrl bucketName assetId fileName contentType s =
     (let s3Key = s3_key assetId fileName in
      case send (GetCommand (asset_key assetId)) s of
        (s1, Inl error) \<Rightarrow> (s1, Inl error)
      | (s1, Inr existing) \<Rightarrow>
          (case Item existing of
             Some it \<Rightarrow> (s1, Inr (asset_exists_response it))
           | None \<Rightarrow>
               (let item = new_asset bucketName assetId fileName contentType s3Key (now_seconds s1) in
                case send (PutCommand item ''assetId'') s1 of
                  (s2, Inl error) \<Rightarrow> (s2, Inl error)
                | (s2, Inr done) \<Rightarrow>
                    (case getSignedUrl (PutObjectCommand (JStr bucketName) (JStr s3Key) contentType) 3600 of
                       Inl error \<Rightarrow> (s2, Inl error)
                     | Inr uploadUrl \<Rightarrow>
                         (s2, Inr \<lparr>statusCode = 201,
                                   body = JObj [(''message'', JStr ''Asset metadata created''),
                                                (''asset'', JObj item),
                                                (''uploadUrl'', JStr uploadUrl)]\<rparr>)))))"

text \<open>The \<^verbatim>\<open>catch\<close> block of \<^verbatim>\<open>uploadAsset\<close>.\<close>

definition uploadAsset_catch :: "json \<Rightarrow> exn \<Rightarrow> world \<Rightarrow> world \<times> (exn + response)" where
  "uploadAsset_catch assetId error s =
     (if name error = ''ConditionalCheckFailedException'' then
        (case send (GetCommand (asset_key assetId)) s of
           (s1, Inl error') \<Rightarrow> (s1, Inl error')
         | (s1, Inr existing) \<Rightarrow>
             (case Item existing of
                Some it \<Rightarrow> (s1, Inr (asset_exists_response it))
              | None \<Rightarrow> (s1, Inl error)))
      else (s, Inl error))"

definition uploadAsset :: "presigner \<Rightarrow> string \<Rightarrow> json \<Rightarrow> world \<Rightarrow> world \<times> (exn + response)" where
  "uploadAsset getSignedUrl bucketName payload s =
     (case get_prop payload ''assetId'' of
        Inl error \<Rightarrow> (s, Inl error)
      | Inr assetId \<Rightarrow>
     (case get_prop payload ''fileName'' of
        Inl error \<Rightarrow> (s, Inl error)
      | Inr fileName \<Rightarrow>
     (case get_prop payload ''contentType'' of
        Inl error \<Rightarrow> (s, Inl error)
      | Inr ct \<Rightarrow>
          (let contentType = (if truthy ct then ct else JStr ''application/octet-stream'') in
           if \<not> truthy assetId \<or> \<not> truthy fileName
           then (s, Inr \<lparr>statusCode = 400, body = error_body ''assetId and fileName are required''\<rparr>)
           else
             (case uploadAsset_try getSignedUrl bucketName assetId fileName contentType s of
                (s1, Inl error) \<Rightarrow> uploadAsset_catch assetId error s1
              | (s1, Inr resp) \<Rightarrow> (s1, Inr resp))))))"

definition asset_not_found :: response where
  "asset_not_found = \<lparr>statusCode = 404, body = error_body ''Asset not found''\<rparr>"

definition getAsset :: "string \<Rightarrow> world \<Rightarrow> world \<times> (exn + response)" where
  "getAsset assetId s =
     (case send (GetCommand (asset_key (JStr assetId))) s of
        (s1, Inl error) \<Rightarrow> (s1, Inl error)
      | (s1, Inr resp) \<Rightarrow>
          (case Item resp of
             None \<Rightarrow> (s1, Inr asset_not_found)
           | Some it \<Rightarrow> (s1, Inr \<lparr>statusCode = 200, body = JObj it\<rparr>)))"

definition getDownloadUrl :: "presigner \<Rightarrow> string \<Rightarrow> world \<Rightarrow> world \<times> (exn + response)" where
  "getDownloadUrl getSignedUrl assetId s =
     (case send (GetCommand (asset_key (JStr assetId))) s of
        (s1, Inl error) \<Rightarrow> (s1, Inl error)
      | (s1, Inr resp) \<Rightarrow>
          (case Item resp of
             None \<Rightarrow> (s1, Inr asset_not_found)
           | Some it \<Rightarrow>
               (case getSignedUrl (GetObjectCommand (field it ''s3Bucket'') (field it ''s3Key'')) 3600 of
                  Inl error \<Rightarrow> (s1, Inl error)
                | Inr downloadUrl \<Rightarrow>
                    (s1, Inr \<lparr>statusCode = 200,
                              body = JObj [(''downloadUrl'', JStr downloadUrl),
                                           (''fileName'', field it ''fileName''),
                                           (''contentType'', field it ''contentType'')]\<rparr>))))"

text \<open>\<^verbatim>\<open>pathParameters.action || ''\<close> is compared with \<^verbatim>\<open>'download'\<close> only.\<close>

definition assets_switch :: "presigner \<Rightarrow> string \<Rightarrow> string \<Rightarrow> string option \<Rightarrow> string option \<Rightarrow> json \<Rightarrow> world \<Rightarrow> world \<times> (exn + response)" where
  "assets_switch getSignedUrl bucketName method assetId action payload s =
     (if method = ''POST'' then uploadAsset getSignedUrl bucketName payload s
      else if method = ''GET'' then
        (case assetId of
           Some a \<Rightarrow>
             (if a \<noteq> [] then
                (if action = Some ''download'' then getDownloadUrl getSignedUrl a s else getAsset a s)
              else (s, Inr method_not_allowed))
         | None \<Rightarrow> (s, Inr method_not_allowed))
      else (s, Inr method_not_allowed))"

definition assets_handler :: "(string \<Rightarrow> json option) \<Rightarrow> presigner \<Rightarrow> string \<Rightarrow> event \<Rightarrow> world \<Rightarrow> world \<times> (exn + response)" where
  "assets_handler JSON_parse getSignedUrl bucketName ev s =
     (case parse_body JSON_parse ev of
        Inl error \<Rightarrow> (s, Inl error)
      | Inr payload \<Rightarrow>
          catch_all (assets_switch getSignedUrl bucketName (httpMethod ev)
                       (path_param ev ''id'') (path_param ev ''action'') payload s))"

section \<open>Example states\<close>

text \<open>A store that refuses the three reserved words named above, and the empty name.\<close>

definition example_refuses :: "string \<Rightarrow> bool" where
  "example_refuses a = (a \<in> set [[], ''name'', ''status'', ''ttl''])"

text \<open>
  A state at the start of an invocation: the given records in the table, the given behaviour of
  the environment, empty logs, and the clock at 2024-01-01 00:00:00.123 UTC.
\<close>

definition start :: "(string \<times> item) list \<Rightarrow> env_step list \<Rightarrow> world" where
  "start recs es =
     \<lparr>table = map_of recs, clock = 1704067200123, script = es, slept = [], sent = [],
      refuses = example_refuses\<rparr>"

text \<open>The environment does nothing at the next \<open>n\<close> store calls.\<close>

definition quiet :: "nat \<Rightarrow> env_step list \<Rightarrow> bool" where
  "quiet n es = list_all (\<lambda>e. e = Quiet) (take n es)"

definition stored_u1 :: item where
  "stored_u1 = [(''userId'', JStr ''u1''), (''email'', JStr ''a@b.com''),
                (''createdAt'', JNum 1700000000), (''ttl'', JNum 1707776000)]"

text \<open>The event of \<^verbatim>\<open>GET /users/{id}\<close> and of \<^verbatim>\<open>GET /assets/{id}\<close>: no body, one path parameter.\<close>

definition get_event :: "string \<Rightarrow> event" where
  "get_event ident = \<lparr>httpMethod = ''GET'', pathParameters = Some [(''id'', ident)], rawBody = None\<rparr>"

text \<open>The event of a \<^verbatim>\<open>POST\<close> with the given body text.\<close>

definition post_event :: "string \<Rightarrow> event" where
  "post_event b = \<lparr>httpMethod = ''POST'', pathParameters = None, rawBody = Some b\<rparr>"

text \<open>The event of \<^verbatim>\<open>PUT /users/{id}\<close> with the given body text.\<close>

definition put_event :: "string \<Rightarrow> string \<Rightarrow> event" where
  "put_event ident b = \<lparr>httpMethod = ''PUT'', pathParameters = Some [(''id'', ident)], rawBody = Some b\<rparr>"

text \<open>Request bodies, after parsing, and a stored asset.\<close>

definition payload_u1 :: item where
  "payload_u1 = [(''userId'', JStr ''u1''), (''email'', JStr ''a@b.com'')]"

definition payload_a1 :: item where
  "payload_a1 = [(''assetId'', JStr ''a1''), (''fileName'', JStr ''report.pdf'')]"

definition stored_a1 :: item where
  "stored_a1 = [(''assetId'', JStr ''a1''), (''fileName'', JStr ''report.pdf''),
                (''contentType'', JStr ''application/pdf''), (''s3Key'', JStr ''assets/a1/report.pdf''),
                (''s3Bucket'', JStr ''bucket''), (''status'', JStr ''pending''),
                (''createdAt'', JNum 1700000000), (''ttl'', JNum 1702592000)]"

text \<open>A presigner that always succeeds.\<close>

definition signer :: presigner where
  "signer c expiresIn = Inr ''https://bucket.example/signed''"

text \<open>
  A stand-in for \<^verbatim>\<open>JSON.parse\<close> that knows two body texts and throws on every other text, in
  particular on \<^verbatim>\<open>{\<close>, which is not JSON.
\<close>

definition example_parse :: "string \<Rightarrow> json option" where
  \<open>example_parse b =
     (if b = ''{"userId":"u1","email":"a@b.com"}'' then Some (JObj payload_u1)
      else if b = ''{"updatedAt":5}'' then Some (JObj [(''updatedAt'', JNum 5)])
      else None)\<close>

section \<open>The store calls, one step at a time\<close>

lemma env_next_Cons: "script s = e # es \<Longrightarrow> env_next s = e"
  by (simp add: env_next_def)

lemma env_next_Nil: "script s = [] \<Longrightarrow> env_next s = Quiet"
  by (simp add: env_next_def)

lemma send_Throw:
  "env_next s = Throw n \<Longrightarrow>
   send c s = (s\<lparr>script := tl (script s), sent := sent s @ [c]\<rparr>, Inl (Exn n))"
  by (simp add: send_def)

lemma send_Get_Quiet:
  "env_next s = Quiet \<Longrightarrow>
   send (GetCommand (a, JStr k)) s =
     (s\<lparr>script := tl (script s), sent := sent s @ [GetCommand (a, JStr k)]\<rparr>,
      Inr \<lparr>Item = table s k, Attributes = None\<rparr>)"
  by (simp add: send_def)

lemma quiet_Suc:
  "quiet (Suc n) es \<Longrightarrow> (case es of [] \<Rightarrow> Quiet | e # es' \<Rightarrow> e) = Quiet \<and> quiet n (tl es)"
  by (cases es) (simp_all add: quiet_def)

lemma quiet_env_next: "quiet (Suc n) (script s) \<Longrightarrow> env_next s = Quiet"
  using quiet_Suc [of n "script s"] by (simp add: env_next_def)

lemma quiet_tl: "quiet (Suc n) es \<Longrightarrow> quiet n (tl es)"
  using quiet_Suc [of n es] by simp

lemma send_Put_Quiet:
  "env_next s = Quiet \<Longrightarrow> map_of it a = Some (JStr k) \<Longrightarrow> \<not> attribute_exists (table s k) a \<Longrightarrow>
   send (PutCommand it a) s =
     (s\<lparr>table := (table s)(k \<mapsto> it), script := tl (script s), sent := sent s @ [PutCommand it a]\<rparr>,
      Inr no_output)"
  by (simp add: send_def)

lemma send_Put_lost:
  "env_next s = OtherPut k w \<Longrightarrow> map_of it a = Some (JStr k) \<Longrightarrow> map_of w a \<noteq> None \<Longrightarrow>
   send (PutCommand it a) s =
     (s\<lparr>table := (table s)(k \<mapsto> w), script := tl (script s), sent := sent s @ [PutCommand it a]\<rparr>,
      Inl (Exn ''ConditionalCheckFailedException''))"
  by (simp add: send_def attribute_exists_def)

section \<open>What the handlers dispatch to\<close>

lemma users_handler_GET:
  "httpMethod ev = ''GET'' \<Longrightarrow> path_param ev ''id'' = Some u \<Longrightarrow> u \<noteq> [] \<Longrightarrow>
   parse_body JSON_parse ev = Inr payload \<Longrightarrow>
   users_handler JSON_parse ev s = catch_all (getUser u s)"
  by (simp add: users_handler_def users_switch_def)

lemma assets_handler_GET:
  "httpMethod ev = ''GET'' \<Longrightarrow> path_param ev ''id'' = Some a \<Longrightarrow> a \<noteq> [] \<Longrightarrow>
   path_param ev ''action'' \<noteq> Some ''download'' \<Longrightarrow>
   parse_body JSON_parse ev = Inr payload \<Longrightarrow>
   assets_handler JSON_parse getSignedUrl bucketName ev s = catch_all (getAsset a s)"
  by (simp add: assets_handler_def assets_switch_def)

lemma get_event_simps:
  "httpMethod (get_event i) = ''GET''"
  "path_param (get_event i) ''id'' = Some i"
  "path_param (get_event i) ''action'' = None"
  "parse_body JSON_parse (get_event i) = Inr (JObj [])"
  by (simp_all add: get_event_def path_param_def parse_body_def)

section \<open>The retry loop of getUser\<close>

lemma getUser_loop_Throw:
  assumes "script s = Throw n # es" and "attempt < retries - 1"
  shows "getUser_loop attempt userId s =
         getUser_loop (attempt + 1) userId
           (sleep (backoff * 2 ^ attempt)
              (s\<lparr>script := es, sent := sent s @ [GetCommand (user_key (JStr userId))]\<rparr>))"
proof -
  have "send (GetCommand (user_key (JStr userId))) s =
        (s\<lparr>script := es, sent := sent s @ [GetCommand (user_key (JStr userId))]\<rparr>, Inl (Exn n))"
    using assms(1) by (simp add: send_Throw env_next_Cons)
  moreover from assms(2) have "attempt < retries" by simp
  ultimately show ?thesis
    using assms(2) by (subst getUser_loop.simps) simp
qed

lemma getUser_loop_Throw_last:
  assumes "script s = Throw n # es" and "attempt = retries - 1"
  shows "getUser_loop attempt userId s =
         (s\<lparr>script := es, sent := sent s @ [GetCommand (user_key (JStr userId))]\<rparr>, Inl (Exn n))"
proof -
  have "send (GetCommand (user_key (JStr userId))) s =
        (s\<lparr>script := es, sent := sent s @ [GetCommand (user_key (JStr userId))]\<rparr>, Inl (Exn n))"
    using assms(1) by (simp add: send_Throw env_next_Cons)
  with assms(2) show ?thesis
    by (subst getUser_loop.simps) (simp add: retries_def)
qed

lemma getUser_loop_Quiet:
  assumes "env_next s = Quiet" and "attempt < retries"
  shows "getUser_loop attempt userId s =
         (s\<lparr>script := tl (script s), sent := sent s @ [GetCommand (user_key (JStr userId))]\<rparr>,
          Inr (case table s userId of
                 None \<Rightarrow> \<lparr>statusCode = 404, body = error_body ''User not found''\<rparr>
               | Some it \<Rightarrow> \<lparr>statusCode = 200, body = JObj it\<rparr>))"
proof -
  have "send (GetCommand (user_key (JStr userId))) s =
        (s\<lparr>script := tl (script s), sent := sent s @ [GetCommand (user_key (JStr userId))]\<rparr>,
         Inr \<lparr>Item = table s userId, Attributes = None\<rparr>)"
    using assms(1) by (simp add: send_Get_Quiet user_key_def)
  with assms(2) show ?thesis
    by (subst getUser_loop.simps) (simp split: option.split)
qed

lemma getUser_three_failures:
  assumes "script s = Throw a # Throw b # Throw c # rest"
  shows "getUser userId s =
         (s\<lparr>clock := clock s + 300, script := rest, slept := slept s @ [100, 200],
            sent := sent s @ replicate 3 (GetCommand (user_key (JStr userId)))\<rparr>,
          Inl (Exn c))"
  unfolding getUser_def
  apply (subst getUser_loop_Throw [OF assms])
   apply (simp add: retries_def)
  apply (subst getUser_loop_Throw [where n = b and es = "Throw c # rest"])
    apply (simp add: sleep_def)
   apply (simp add: retries_def)
  apply (subst getUser_loop_Throw_last [where n = c and es = rest])
    apply (simp add: sleep_def)
   apply (simp add: retries_def)
  apply (simp add: sleep_def backoff_def numeral_3_eq_3)
  done

lemma getUser_two_failures:
  assumes "script s = Throw a # Throw b # Quiet # rest"
  shows "getUser userId s =
         (s\<lparr>clock := clock s + 300, script := rest, slept := slept s @ [100, 200],
            sent := sent s @ replicate 3 (GetCommand (user_key (JStr userId)))\<rparr>,
          Inr (case table s userId of
                 None \<Rightarrow> \<lparr>statusCode = 404, body = error_body ''User not found''\<rparr>
               | Some it \<Rightarrow> \<lparr>statusCode = 200, body = JObj it\<rparr>))"
  unfolding getUser_def
  apply (subst getUser_loop_Throw [OF assms])
   apply (simp add: retries_def)
  apply (subst getUser_loop_Throw [where n = b and es = "Quiet # rest"])
    apply (simp add: sleep_def)
   apply (simp add: retries_def)
  apply (subst getUser_loop_Quiet)
    apply (simp add: sleep_def env_next_def)
   apply (simp add: retries_def)
  apply (simp add: sleep_def backoff_def numeral_3_eq_3)
  done

lemma getUser_first_attempt:
  assumes "env_next s = Quiet"
  shows "getUser userId s =
         (s\<lparr>script := tl (script s), sent := sent s @ [GetCommand (user_key (JStr userId))]\<rparr>,
          Inr (case table s userId of
                 None \<Rightarrow> \<lparr>statusCode = 404, body = error_body ''User not found''\<rparr>
               | Some it \<Rightarrow> \<lparr>statusCode = 200, body = JObj it\<rparr>))"
  unfolding getUser_def using assms by (rule getUser_loop_Quiet) (simp add: retries_def)

lemma getAsset_first_attempt:
  assumes "env_next s = Quiet"
  shows "getAsset assetId s =
         (s\<lparr>script := tl (script s), sent := sent s @ [GetCommand (asset_key (JStr assetId))]\<rparr>,
          Inr (case table s assetId of
                 None \<Rightarrow> \<lparr>statusCode = 404, body = error_body ''Asset not found''\<rparr>
               | Some it \<Rightarrow> \<lparr>statusCode = 200, body = JObj it\<rparr>))"
  using assms
  by (simp add: getAsset_def asset_key_def send_Get_Quiet asset_not_found_def split: option.split)

text \<open>
  C3, as the code has it. When the store call fails at all three attempts, \<^verbatim>\<open>getUser\<close> sleeps
  \<^verbatim>\<open>backoff * 2^attempt\<close> after attempt 0 and after attempt 1 only, that is 100 ms and then
  200 ms; the third failure is thrown at once, with no third sleep. The wait before the last
  error surfaces is 300 ms, and three commands have been sent.
\<close>

theorem getUser_exhausted_waits_300:
  assumes "script s = Throw a # Throw b # Throw c # rest"
  shows "getUser userId s =
         (s\<lparr>clock := clock s + 300, script := rest,
            slept := slept s @ [backoff * 2 ^ 0, backoff * 2 ^ 1],
            sent := sent s @ replicate 3 (GetCommand (user_key (JStr userId)))\<rparr>,
          Inl (Exn c))
         \<and> sum_list [backoff * 2 ^ 0, backoff * 2 ^ 1] = 300"
  using getUser_three_failures [OF assms, of userId] by (simp add: backoff_def)

theorem getUser_exhausted_waits_300_witness:
  "script (start [] [Throw ''Timeout'', Throw ''Timeout'', Throw ''Throttled'']) =
     Throw ''Timeout'' # Throw ''Timeout'' # Throw ''Throttled'' # []
   \<and> snd (getUser ''u1'' (start [] [Throw ''Timeout'', Throw ''Timeout'', Throw ''Throttled''])) =
     Inl (Exn ''Throttled'')
   \<and> clock (fst (getUser ''u1'' (start [] [Throw ''Timeout'', Throw ''Timeout'', Throw ''Throttled'']))) =
     1704067200423"
proof -
  have h: "script (start [] [Throw ''Timeout'', Throw ''Timeout'', Throw ''Throttled'']) =
           Throw ''Timeout'' # Throw ''Timeout'' # Throw ''Throttled'' # []"
    by (simp add: start_def)
  show ?thesis
    using h getUser_exhausted_waits_300 [OF h, of "''u1''"] by (simp add: start_def)
qed

text \<open>
  The claim as the specification words it fails: with every attempt failing, the sleeps are
  100 and 200, not 100, 200 and 400, and they add up to 300, not 700.
\<close>

theorem getUser_exhausted_counterexample:
  "snd (getUser ''u1'' (start [] [Throw ''Timeout'', Throw ''Timeout'', Throw ''Timeout''])) =
     Inl (Exn ''Timeout'')
   \<and> slept (fst (getUser ''u1'' (start [] [Throw ''Timeout'', Throw ''Timeout'', Throw ''Timeout'']))) =
     [100, 200]
   \<and> slept (fst (getUser ''u1'' (start [] [Throw ''Timeout'', Throw ''Timeout'', Throw ''Timeout'']))) \<noteq>
     [100, 200, 400]
   \<and> sum_list (slept (fst (getUser ''u1'' (start [] [Throw ''Timeout'', Throw ''Timeout'', Throw ''Timeout''])))) \<noteq>
     700"
proof -
  have h: "script (start [] [Throw ''Timeout'', Throw ''Timeout'', Throw ''Timeout'']) =
           Throw ''Timeout'' # Throw ''Timeout'' # Throw ''Timeout'' # []"
    by (simp add: start_def)
  show ?thesis
    using getUser_three_failures [OF h, of "''u1''"] by (simp add: start_def)
qed

text \<open>
  C4. \<^verbatim>\<open>GET /users/{id}\<close> on a stored record, with the store call failing at the first two
  attempts and answering at the third: the handler returns 200 with the record, after exactly
  three store calls and sleeps of 100 ms and 200 ms, 300 ms in all.
\<close>

theorem users_handler_GET_survives_two_failures:
  assumes "script s = Throw a # Throw b # Quiet # rest"
    and "table s userId = Some it"
    and "httpMethod ev = ''GET''" and "path_param ev ''id'' = Some userId" and "userId \<noteq> []"
    and "parse_body JSON_parse ev = Inr payload"
  shows "users_handler JSON_parse ev s =
         (s\<lparr>clock := clock s + 300, script := rest, slept := slept s @ [100, 200],
            sent := sent s @ replicate 3 (GetCommand (user_key (JStr userId)))\<rparr>,
          Inr \<lparr>statusCode = 200, body = JObj it\<rparr>)"
  using assms(2)
  by (simp add: users_handler_GET [OF assms(3-6)] getUser_two_failures [OF assms(1)] catch_all_def)

theorem users_handler_GET_survives_two_failures_witness:
  "script (start [(''u1'', stored_u1)] [Throw ''Timeout'', Throw ''Throttled'', Quiet]) =
     Throw ''Timeout'' # Throw ''Throttled'' # Quiet # []
   \<and> table (start [(''u1'', stored_u1)] [Throw ''Timeout'', Throw ''Throttled'', Quiet]) ''u1'' =
     Some stored_u1
   \<and> snd (users_handler (\<lambda>b. None) (get_event ''u1'')
          (start [(''u1'', stored_u1)] [Throw ''Timeout'', Throw ''Throttled'', Quiet])) =
     Inr \<lparr>statusCode = 200, body = JObj stored_u1\<rparr>
   \<and> slept (fst (users_handler (\<lambda>b. None) (get_event ''u1'')
          (start [(''u1'', stored_u1)] [Throw ''Timeout'', Throw ''Throttled'', Quiet]))) = [100, 200]
   \<and> length (sent (fst (users_handler (\<lambda>b. None) (get_event ''u1'')
          (start [(''u1'', stored_u1)] [Throw ''Timeout'', Throw ''Throttled'', Quiet])))) = 3"
proof -
  let ?s = "start [(''u1'', stored_u1)] [Throw ''Timeout'', Throw ''Throttled'', Quiet]"
  have h1: "script ?s = Throw ''Timeout'' # Throw ''Throttled'' # Quiet # []"
    by (simp add: start_def)
  have h2: "table ?s ''u1'' = Some stored_u1"
    by (simp add: start_def)
  have h3: "httpMethod (get_event ''u1'') = ''GET''"
    and h4: "path_param (get_event ''u1'') ''id'' = Some ''u1''"
    and h6: "parse_body (\<lambda>b. None) (get_event ''u1'') = Inr (JObj [])"
    by (simp_all add: get_event_simps)
  have h5: "''u1'' \<noteq> []" by simp
  show ?thesis
    using h1 h2 users_handler_GET_survives_two_failures [OF h1 h2 h3 h4 h5 h6]
    by (simp add: start_def)
qed

text \<open>
  C5. A read that finds no record answers 404 at the first attempt: one store call, no sleep,
  the clock untouched, and a body of the shape \<^verbatim>\<open>{"error": string}\<close>. This holds for \<^verbatim>\<open>getUser\<close>
  and \<^verbatim>\<open>getAsset\<close> on every identifier, and for both handlers on the \<^verbatim>\<open>GET\<close> of a non-empty
  identifier.
\<close>

theorem not_found_is_terminal:
  assumes "env_next s = Quiet" and "table s ident = None"
  shows "getUser ident s =
           (s\<lparr>script := tl (script s), sent := sent s @ [GetCommand (''userId'', JStr ident)]\<rparr>,
            Inr \<lparr>statusCode = 404, body = JObj [(''error'', JStr ''User not found'')]\<rparr>)
         \<and> getAsset ident s =
           (s\<lparr>script := tl (script s), sent := sent s @ [GetCommand (''assetId'', JStr ident)]\<rparr>,
            Inr \<lparr>statusCode = 404, body = JObj [(''error'', JStr ''Asset not found'')]\<rparr>)
         \<and> (ident \<noteq> [] \<longrightarrow>
              users_handler JSON_parse (get_event ident) s =
                (s\<lparr>script := tl (script s), sent := sent s @ [GetCommand (''userId'', JStr ident)]\<rparr>,
                 Inr \<lparr>statusCode = 404, body = JObj [(''error'', JStr ''User not found'')]\<rparr>)
            \<and> assets_handler JSON_parse getSignedUrl bucketName (get_event ident) s =
                (s\<lparr>script := tl (script s), sent := sent s @ [GetCommand (''assetId'', JStr ident)]\<rparr>,
                 Inr \<lparr>statusCode = 404, body = JObj [(''error'', JStr ''Asset not found'')]\<rparr>))"
proof -
  have u: "getUser ident s =
           (s\<lparr>script := tl (script s), sent := sent s @ [GetCommand (''userId'', JStr ident)]\<rparr>,
            Inr \<lparr>statusCode = 404, body = JObj [(''error'', JStr ''User not found'')]\<rparr>)"
    using assms(2) by (simp add: getUser_first_attempt [OF assms(1)] user_key_def error_body_def)
  have a: "getAsset ident s =
           (s\<lparr>script := tl (script s), sent := sent s @ [GetCommand (''assetId'', JStr ident)]\<rparr>,
            Inr \<lparr>statusCode = 404, body = JObj [(''error'', JStr ''Asset not found'')]\<rparr>)"
    using assms(2) by (simp add: getAsset_first_attempt [OF assms(1)] asset_key_def error_body_def)
  have "users_handler JSON_parse (get_event ident) s = catch_all (getUser ident s)" if "ident \<noteq> []"
    using that by (simp add: users_handler_GET get_event_simps)
  moreover have "assets_handler JSON_parse getSignedUrl bucketName (get_event ident) s =
      catch_all (getAsset ident s)" if "ident \<noteq> []"
    using that by (simp add: assets_handler_GET get_event_simps)
  ultimately show ?thesis
    by (simp add: u a catch_all_def)
qed

theorem not_found_is_terminal_witness:
  "env_next (start [] []) = Quiet \<and> table (start [] []) ''missing'' = None
   \<and> snd (getUser ''missing'' (start [] [])) =
       Inr \<lparr>statusCode = 404, body = JObj [(''error'', JStr ''User not found'')]\<rparr>
   \<and> snd (assets_handler (\<lambda>b. None) (\<lambda>c n. Inr ''https://signed'') ''bucket'' (get_event ''missing'') (start [] [])) =
       Inr \<lparr>statusCode = 404, body = JObj [(''error'', JStr ''Asset not found'')]\<rparr>
   \<and> slept (fst (getUser ''missing'' (start [] []))) = []"
proof -
  have h1: "env_next (start [] []) = Quiet"
    by (simp add: start_def env_next_def)
  have h2: "table (start [] []) ''missing'' = None"
    by (simp add: start_def)
  show ?thesis
    using h1 h2
      not_found_is_terminal [OF h1 h2, of "\<lambda>b. None" "\<lambda>c n. Inr ''https://signed''" "''bucket''"]
    by (simp add: start_def)
qed


lemma getUser_loop_result:
  "attempt < retries \<Longrightarrow>
   (case snd (getUser_loop attempt userId s) of
      Inl error \<Rightarrow> True
    | Inr r \<Rightarrow> statusCode r = 200 \<or> statusCode r = 404)"
proof (induction attempt userId s rule: getUser_loop.induct)
  case (1 attempt userId s)
  show ?case
  proof (cases "send (GetCommand (user_key (JStr userId))) s")
    case (Pair s1 r)
    show ?thesis
    proof (cases r)
      case (Inl error)
      show ?thesis
      proof (cases "attempt < retries - 1")
        case True
        then have "Suc attempt < retries" by simp
        with "1.IH" [OF "1.prems" Pair [symmetric] Inl True] True Pair Inl "1.prems"
        show ?thesis
          by (subst getUser_loop.simps) simp
      next
        case False
        with Pair Inl "1.prems" show ?thesis
          by (subst getUser_loop.simps) simp
      qed
    next
      case (Inr resp)
      with Pair "1.prems" show ?thesis
        by (subst getUser_loop.simps) (simp split: option.split)
    qed
  qed
qed

text \<open>
  C10. Whatever the store and the environment do, \<^verbatim>\<open>getUser\<close> ends inside its loop: it throws,
  or it returns a response with status 200 or 404. The response written after the loop, status
  500 with the body \<^verbatim>\<open>{"error": "Failed to get user"}\<close>, is never the result.
\<close>

theorem getUser_fallback_unreachable:
  "snd (getUser userId s) \<noteq> Inr fallback_response \<and>
   (case snd (getUser userId s) of
      Inl error \<Rightarrow> True
    | Inr r \<Rightarrow> statusCode r = 200 \<or> statusCode r = 404)"
proof -
  have "0 < retries" by (simp add: retries_def)
  then have "case snd (getUser userId s) of
      Inl error \<Rightarrow> True
    | Inr r \<Rightarrow> statusCode r = 200 \<or> statusCode r = 404"
    unfolding getUser_def by (rule getUser_loop_result)
  then show ?thesis
    by (auto simp: fallback_response_def split: sum.splits)
qed

theorem getUser_fallback_unreachable_witness:
  "snd (getUser ''u1'' (start [] [Throw ''InternalServerError''])) \<noteq> Inr fallback_response \<and>
   (case snd (getUser ''u1'' (start [] [Throw ''InternalServerError''])) of
      Inl error \<Rightarrow> True
    | Inr r \<Rightarrow> statusCode r = 200 \<or> statusCode r = 404)"
  by (rule getUser_fallback_unreachable)

section \<open>Creation, step by step\<close>

lemma new_user_key: "map_of (new_user userId email nm department now) ''userId'' = Some userId"
  by (simp add: new_user_def)

lemma new_asset_key:
  "map_of (new_asset bucketName assetId fileName contentType s3Key now) ''assetId'' = Some assetId"
  by (simp add: new_asset_def)

lemma now_seconds_sent [simp]:
  "now_seconds (s\<lparr>script := es, sent := cs\<rparr>) = now_seconds s"
  by (simp add: now_seconds_def)

lemma createUser_valid:
  assumes "field fs ''userId'' = JStr u" and "u \<noteq> []" and "truthy (field fs ''email'')"
  shows "createUser (JObj fs) s =
         (case createUser_try (JStr u) (field fs ''email'') (JObj fs) s of
            (s1, Inl error) \<Rightarrow> createUser_catch (JStr u) error s1
          | (s1, Inr resp) \<Rightarrow> (s1, Inr resp))"
  using assms by (simp add: createUser_def)

lemma createUser_try_existing:
  assumes "env_next s = Quiet" and "table s u = Some it"
  shows "createUser_try (JStr u) email (JObj fs) s =
         (s\<lparr>script := tl (script s), sent := sent s @ [GetCommand (''userId'', JStr u)]\<rparr>,
          Inr (user_exists_response it))"
  using assms by (simp add: createUser_try_def user_key_def send_Get_Quiet)

lemma createUser_try_new:
  assumes "quiet 2 (script s)" and "table s u = None"
    and "item = new_user (JStr u) email (field fs ''name'') (field fs ''department'') (now_seconds s)"
  shows "createUser_try (JStr u) email (JObj fs) s =
         (s\<lparr>table := (table s)(u \<mapsto> item),
            script := tl (tl (script s)),
            sent := sent s @ [GetCommand (''userId'', JStr u), PutCommand item ''userId'']\<rparr>,
          Inr \<lparr>statusCode = 201,
               body = JObj [(''message'', JStr ''User created''), (''user'', JObj item)]\<rparr>)"
proof -
  from assms(1) have q1: "env_next s = Quiet" and q2: "quiet (Suc 0) (tl (script s))"
    by (simp_all add: numeral_2_eq_2 quiet_env_next quiet_tl)
  let ?s1 = "s\<lparr>script := tl (script s), sent := sent s @ [GetCommand (''userId'', JStr u)]\<rparr>"
  have g: "send (GetCommand (''userId'', JStr u)) s = (?s1, Inr \<lparr>Item = None, Attributes = None\<rparr>)"
    using q1 assms(2) by (simp add: send_Get_Quiet)
  have "env_next ?s1 = Quiet"
    using q2 by (simp add: quiet_env_next)
  moreover have "map_of item ''userId'' = Some (JStr u)"
    by (simp add: assms(3) new_user_key)
  moreover have "\<not> attribute_exists (table ?s1 u) ''userId''"
    using assms(2) by (simp add: attribute_exists_def)
  ultimately have p: "send (PutCommand item ''userId'') ?s1 =
      (?s1\<lparr>table := (table ?s1)(u \<mapsto> item), script := tl (script ?s1),
            sent := sent ?s1 @ [PutCommand item ''userId'']\<rparr>, Inr no_output)"
    by (rule send_Put_Quiet)
  show ?thesis
    by (simp add: createUser_try_def user_key_def g assms(3) [symmetric] p Let_def)
qed

lemma createUser_try_lost:
  assumes "script s = Quiet # OtherPut u w # rest" and "table s u = None"
    and "map_of w ''userId'' \<noteq> None"
    and "item = new_user (JStr u) email (field fs ''name'') (field fs ''department'') (now_seconds s)"
  shows "createUser_try (JStr u) email (JObj fs) s =
         (s\<lparr>table := (table s)(u \<mapsto> w), script := rest,
            sent := sent s @ [GetCommand (''userId'', JStr u), PutCommand item ''userId'']\<rparr>,
          Inl (Exn ''ConditionalCheckFailedException''))"
proof -
  let ?s1 = "s\<lparr>script := tl (script s), sent := sent s @ [GetCommand (''userId'', JStr u)]\<rparr>"
  have g: "send (GetCommand (''userId'', JStr u)) s = (?s1, Inr \<lparr>Item = None, Attributes = None\<rparr>)"
    using assms(1,2) by (simp add: send_Get_Quiet env_next_Cons)
  have "env_next ?s1 = OtherPut u w"
    using assms(1) by (simp add: env_next_def)
  moreover have "map_of item ''userId'' = Some (JStr u)"
    by (simp add: assms(4) new_user_key)
  ultimately have p: "send (PutCommand item ''userId'') ?s1 =
      (?s1\<lparr>table := (table ?s1)(u \<mapsto> w), script := tl (script ?s1),
            sent := sent ?s1 @ [PutCommand item ''userId'']\<rparr>,
       Inl (Exn ''ConditionalCheckFailedException''))"
    using assms(3) by (rule send_Put_lost)
  have "createUser_try (JStr u) email (JObj fs) s =
      (?s1\<lparr>table := (table ?s1)(u \<mapsto> w), script := tl (script ?s1),
            sent := sent ?s1 @ [PutCommand item ''userId'']\<rparr>,
       Inl (Exn ''ConditionalCheckFailedException''))"
    by (simp add: createUser_try_def user_key_def g assms(4) [symmetric] p Let_def)
  then show ?thesis
    using assms(1) by simp
qed

lemma createUser_catch_found:
  assumes "env_next s = Quiet" and "table s u = Some w"
  shows "createUser_catch (JStr u) (Exn ''ConditionalCheckFailedException'') s =
         (s\<lparr>script := tl (script s), sent := sent s @ [GetCommand (''userId'', JStr u)]\<rparr>,
          Inr (user_exists_response w))"
  using assms by (simp add: createUser_catch_def user_key_def send_Get_Quiet)

lemma createUser_catch_rethrows:
  assumes "env_next s = Quiet" and "table s u = None"
    and "name error = ''ConditionalCheckFailedException''"
  shows "createUser_catch (JStr u) error s =
         (s\<lparr>script := tl (script s), sent := sent s @ [GetCommand (''userId'', JStr u)]\<rparr>,
          Inl error)"
  using assms by (simp add: createUser_catch_def user_key_def send_Get_Quiet)

lemma uploadAsset_valid:
  assumes "field gs ''assetId'' = JStr a" and "a \<noteq> []" and "truthy (field gs ''fileName'')"
  shows "uploadAsset getSignedUrl bucketName (JObj gs) s =
         (case uploadAsset_try getSignedUrl bucketName (JStr a) (field gs ''fileName'')
                 (if truthy (field gs ''contentType'') then field gs ''contentType''
                  else JStr ''application/octet-stream'') s of
            (s1, Inl error) \<Rightarrow> uploadAsset_catch (JStr a) error s1
          | (s1, Inr resp) \<Rightarrow> (s1, Inr resp))"
  using assms by (simp add: uploadAsset_def Let_def)

lemma uploadAsset_try_existing:
  assumes "env_next s = Quiet" and "table s a = Some it"
  shows "uploadAsset_try getSignedUrl bucketName (JStr a) fileName contentType s =
         (s\<lparr>script := tl (script s), sent := sent s @ [GetCommand (''assetId'', JStr a)]\<rparr>,
          Inr (asset_exists_response it))"
  using assms by (simp add: uploadAsset_try_def asset_key_def send_Get_Quiet)

lemma uploadAsset_try_new:
  assumes "quiet 2 (script s)" and "table s a = None"
    and "item = new_asset bucketName (JStr a) fileName contentType
                  (s3_key (JStr a) fileName) (now_seconds s)"
  shows "uploadAsset_try getSignedUrl bucketName (JStr a) fileName contentType s =
         (case getSignedUrl (PutObjectCommand (JStr bucketName)
                  (JStr (s3_key (JStr a) fileName)) contentType) 3600 of
            Inl error \<Rightarrow>
              (s\<lparr>table := (table s)(a \<mapsto> item), script := tl (tl (script s)),
                 sent := sent s @ [GetCommand (''assetId'', JStr a), PutCommand item ''assetId'']\<rparr>,
               Inl error)
          | Inr uploadUrl \<Rightarrow>
              (s\<lparr>table := (table s)(a \<mapsto> item), script := tl (tl (script s)),
                 sent := sent s @ [GetCommand (''assetId'', JStr a), PutCommand item ''assetId'']\<rparr>,
               Inr \<lparr>statusCode = 201,
                    body = JObj [(''message'', JStr ''Asset metadata created''),
                                 (''asset'', JObj item), (''uploadUrl'', JStr uploadUrl)]\<rparr>))"
proof -
  from assms(1) have q1: "env_next s = Quiet" and q2: "quiet (Suc 0) (tl (script s))"
    by (simp_all add: numeral_2_eq_2 quiet_env_next quiet_tl)
  let ?s1 = "s\<lparr>script := tl (script s), sent := sent s @ [GetCommand (''assetId'', JStr a)]\<rparr>"
  have g: "send (GetCommand (''assetId'', JStr a)) s = (?s1, Inr \<lparr>Item = None, Attributes = None\<rparr>)"
    using q1 assms(2) by (simp add: send_Get_Quiet)
  have "env_next ?s1 = Quiet"
    using q2 by (simp add: quiet_env_next)
  moreover have "map_of item ''assetId'' = Some (JStr a)"
    by (simp add: assms(3) new_asset_key)
  moreover have "\<not> attribute_exists (table ?s1 a) ''assetId''"
    using assms(2) by (simp add: attribute_exists_def)
  ultimately have p: "send (PutCommand item ''assetId'') ?s1 =
      (?s1\<lparr>table := (table ?s1)(a \<mapsto> item), script := tl (script ?s1),
            sent := sent ?s1 @ [PutCommand item ''assetId'']\<rparr>, Inr no_output)"
    by (rule send_Put_Quiet)
  show ?thesis
    by (simp add: uploadAsset_try_def asset_key_def g assms(3) [symmetric] p Let_def split: sum.split)
qed

lemma uploadAsset_try_lost:
  assumes "script s = Quiet # OtherPut a w # rest" and "table s a = None"
    and "map_of w ''assetId'' \<noteq> None"
    and "item = new_asset bucketName (JStr a) fileName contentType
                  (s3_key (JStr a) fileName) (now_seconds s)"
  shows "uploadAsset_try getSignedUrl bucketName (JStr a) fileName contentType s =
         (s\<lparr>table := (table s)(a \<mapsto> w), script := rest,
            sent := sent s @ [GetCommand (''assetId'', JStr a), PutCommand item ''assetId'']\<rparr>,
          Inl (Exn ''ConditionalCheckFailedException''))"
proof -
  let ?s1 = "s\<lparr>script := tl (script s), sent := sent s @ [GetCommand (''assetId'', JStr a)]\<rparr>"
  have g: "send (GetCommand (''assetId'', JStr a)) s = (?s1, Inr \<lparr>Item = None, Attributes = None\<rparr>)"
    using assms(1,2) by (simp add: send_Get_Quiet env_next_Cons)
  have "env_next ?s1 = OtherPut a w"
    using assms(1) by (simp add: env_next_def)
  moreover have "map_of item ''assetId'' = Some (JStr a)"
    by (simp add: assms(4) new_asset_key)
  ultimately have p: "send (PutCommand item ''assetId'') ?s1 =
      (?s1\<lparr>table := (table ?s1)(a \<mapsto> w), script := tl (script ?s1),
            sent := sent ?s1 @ [PutCommand item ''assetId'']\<rparr>,
       Inl (Exn ''ConditionalCheckFailedException''))"
    using assms(3) by (rule send_Put_lost)
  have "uploadAsset_try getSignedUrl bucketName (JStr a) fileName contentType s =
      (?s1\<lparr>table := (table ?s1)(a \<mapsto> w), script := tl (script ?s1),
            sent := sent ?s1 @ [PutCommand item ''assetId'']\<rparr>,
       Inl (Exn ''ConditionalCheckFailedException''))"
    by (simp add: uploadAsset_try_def asset_key_def g assms(4) [symmetric] p Let_def)
  then show ?thesis
    using assms(1) by simp
qed

lemma uploadAsset_catch_found:
  assumes "env_next s = Quiet" and "table s a = Some w"
  shows "uploadAsset_catch (JStr a) (Exn ''ConditionalCheckFailedException'') s =
         (s\<lparr>script := tl (script s), sent := sent s @ [GetCommand (''assetId'', JStr a)]\<rparr>,
          Inr (asset_exists_response w))"
  using assms by (simp add: uploadAsset_catch_def asset_key_def send_Get_Quiet)


lemma createUser_existing:
  assumes "field fs ''userId'' = JStr u" and "u \<noteq> []" and "truthy (field fs ''email'')"
    and "env_next s = Quiet" and "table s u = Some it"
  shows "createUser (JObj fs) s =
         (s\<lparr>script := tl (script s), sent := sent s @ [GetCommand (''userId'', JStr u)]\<rparr>,
          Inr (user_exists_response it))"
  by (simp add: createUser_valid [OF assms(1-3)] createUser_try_existing [OF assms(4,5)])

lemma createUser_new:
  assumes "field fs ''userId'' = JStr u" and "u \<noteq> []" and "truthy (field fs ''email'')"
    and "quiet 2 (script s)" and "table s u = None"
    and "item = new_user (JStr u) (field fs ''email'') (field fs ''name'') (field fs ''department'') (now_seconds s)"
  shows "createUser (JObj fs) s =
         (s\<lparr>table := (table s)(u \<mapsto> item),
            script := tl (tl (script s)),
            sent := sent s @ [GetCommand (''userId'', JStr u), PutCommand item ''userId'']\<rparr>,
          Inr \<lparr>statusCode = 201,
               body = JObj [(''message'', JStr ''User created''), (''user'', JObj item)]\<rparr>)"
  by (simp add: createUser_valid [OF assms(1-3)] createUser_try_new [OF assms(4-6)])

lemma createUser_lost_race:
  assumes "field fs ''userId'' = JStr u" and "u \<noteq> []" and "truthy (field fs ''email'')"
    and "script s = Quiet # OtherPut u w # rest" and "table s u = None"
    and "map_of w ''userId'' \<noteq> None"
    and "item = new_user (JStr u) (field fs ''email'') (field fs ''name'') (field fs ''department'') (now_seconds s)"
    and "quiet 1 rest"
  shows "createUser (JObj fs) s =
         (s\<lparr>table := (table s)(u \<mapsto> w), script := tl rest,
            sent := sent s @ [GetCommand (''userId'', JStr u), PutCommand item ''userId'',
                              GetCommand (''userId'', JStr u)]\<rparr>,
          Inr (user_exists_response w))"
proof -
  let ?s1 = "s\<lparr>table := (table s)(u \<mapsto> w), script := rest,
            sent := sent s @ [GetCommand (''userId'', JStr u), PutCommand item ''userId'']\<rparr>"
  have "env_next ?s1 = Quiet"
    using assms(8) by (simp add: quiet_env_next)
  moreover have "table ?s1 u = Some w"
    by simp
  ultimately have "createUser_catch (JStr u) (Exn ''ConditionalCheckFailedException'') ?s1 =
      (?s1\<lparr>script := tl (script ?s1), sent := sent ?s1 @ [GetCommand (''userId'', JStr u)]\<rparr>,
       Inr (user_exists_response w))"
    by (rule createUser_catch_found)
  then show ?thesis
    by (simp add: createUser_valid [OF assms(1-3)] createUser_try_lost [OF assms(4-7)])
qed

lemma uploadAsset_existing:
  assumes "field gs ''assetId'' = JStr a" and "a \<noteq> []" and "truthy (field gs ''fileName'')"
    and "env_next s = Quiet" and "table s a = Some it"
  shows "uploadAsset getSignedUrl bucketName (JObj gs) s =
         (s\<lparr>script := tl (script s), sent := sent s @ [GetCommand (''assetId'', JStr a)]\<rparr>,
          Inr (asset_exists_response it))"
  by (simp add: uploadAsset_valid [OF assms(1-3)] uploadAsset_try_existing [OF assms(4,5)])

lemma uploadAsset_new:
  assumes "field gs ''assetId'' = JStr a" and "a \<noteq> []" and "truthy (field gs ''fileName'')"
    and "quiet 2 (script s)" and "table s a = None"
    and "item = new_asset bucketName (JStr a) (field gs ''fileName'')
                  (if truthy (field gs ''contentType'') then field gs ''contentType''
                   else JStr ''application/octet-stream'')
                  (s3_key (JStr a) (field gs ''fileName'')) (now_seconds s)"
    and "getSignedUrl (PutObjectCommand (JStr bucketName)
            (JStr (s3_key (JStr a) (field gs ''fileName'')))
            (if truthy (field gs ''contentType'') then field gs ''contentType''
             else JStr ''application/octet-stream'')) 3600 = Inr uploadUrl"
  shows "uploadAsset getSignedUrl bucketName (JObj gs) s =
         (s\<lparr>table := (table s)(a \<mapsto> item), script := tl (tl (script s)),
            sent := sent s @ [GetCommand (''assetId'', JStr a), PutCommand item ''assetId'']\<rparr>,
          Inr \<lparr>statusCode = 201,
               body = JObj [(''message'', JStr ''Asset metadata created''),
                            (''asset'', JObj item), (''uploadUrl'', JStr uploadUrl)]\<rparr>)"
  by (simp add: uploadAsset_valid [OF assms(1-3)] uploadAsset_try_new [OF assms(4-6)] assms(7))

lemma uploadAsset_lost_race:
  assumes "field gs ''assetId'' = JStr a" and "a \<noteq> []" and "truthy (field gs ''fileName'')"
    and "script s = Quiet # OtherPut a w # rest" and "table s a = None"
    and "map_of w ''assetId'' \<noteq> None"
    and "item = new_asset bucketName (JStr a) (field gs ''fileName'')
                  (if truthy (field gs ''contentType'') then field gs ''contentType''
                   else JStr ''application/octet-stream'')
                  (s3_key (JStr a) (field gs ''fileName'')) (now_seconds s)"
    and "quiet 1 rest"
  shows "uploadAsset getSignedUrl bucketName (JObj gs) s =
         (s\<lparr>table := (table s)(a \<mapsto> w), script := tl rest,
            sent := sent s @ [GetCommand (''assetId'', JStr a), PutCommand item ''assetId'',
                              GetCommand (''assetId'', JStr a)]\<rparr>,
          Inr (asset_exists_response w))"
proof -
  let ?s1 = "s\<lparr>table := (table s)(a \<mapsto> w), script := rest,
            sent := sent s @ [GetCommand (''assetId'', JStr a), PutCommand item ''assetId'']\<rparr>"
  have "env_next ?s1 = Quiet"
    using assms(8) by (simp add: quiet_env_next)
  moreover have "table ?s1 a = Some w"
    by simp
  ultimately have "uploadAsset_catch (JStr a) (Exn ''ConditionalCheckFailedException'') ?s1 =
      (?s1\<lparr>script := tl (script ?s1), sent := sent ?s1 @ [GetCommand (''assetId'', JStr a)]\<rparr>,
       Inr (asset_exists_response w))"
    by (rule uploadAsset_catch_found)
  then show ?thesis
    by (simp add: uploadAsset_valid [OF assms(1-3)] uploadAsset_try_lost [OF assms(4-7)])
qed

section \<open>Idempotent creation\<close>

lemma users_handler_POST:
  "httpMethod ev = ''POST'' \<Longrightarrow> parse_body JSON_parse ev = Inr payload \<Longrightarrow>
   users_handler JSON_parse ev s = catch_all (createUser payload s)"
  by (simp add: users_handler_def users_switch_def)

lemma catch_all_Inr [simp]: "catch_all (s, Inr r) = (s, Inr r)"
  by (simp add: catch_all_def)

lemma catch_all_Inl [simp]:
  "catch_all (s, Inl e) = (s, Inr \<lparr>statusCode = 500, body = JObj [(''error'', JStr ''Internal server error'')]\<rparr>)"
  by (simp add: catch_all_def error_body_def)

lemma quiet_less: "quiet (Suc n) es \<Longrightarrow> quiet n es"
proof -
  have "set (take n es) \<subseteq> set (take (Suc n) es)"
    by (rule set_take_subset_set_take) simp
  then show "quiet (Suc n) es \<Longrightarrow> quiet n es"
    unfolding quiet_def list_all_iff by blast
qed

lemma createUser_twice:
  assumes "field fs ''userId'' = JStr u" and "u \<noteq> []" and "truthy (field fs ''email'')"
    and "quiet 3 (script s)" and "table s u = None"
    and "user = new_user (JStr u) (field fs ''email'') (field fs ''name'') (field fs ''department'') (now_seconds s)"
  shows "createUser (JObj fs) ((fst (createUser (JObj fs) s))\<lparr>clock := later\<rparr>) =
           (s\<lparr>table := (table s)(u \<mapsto> user), clock := later, script := tl (tl (tl (script s))),
              sent := sent s @ [GetCommand (''userId'', JStr u), PutCommand user ''userId'',
                                GetCommand (''userId'', JStr u)]\<rparr>,
            Inr (user_exists_response user))"
proof -
  from assms(4) have q2: "quiet 2 (script s)" and q1: "quiet (Suc 0) (tl (tl (script s)))"
    by (simp_all add: numeral_3_eq_3 numeral_2_eq_2 quiet_tl quiet_less)
  let ?s1 = "s\<lparr>table := (table s)(u \<mapsto> user), script := tl (tl (script s)),
            sent := sent s @ [GetCommand (''userId'', JStr u), PutCommand user ''userId'']\<rparr>"
  have first: "fst (createUser (JObj fs) s) = ?s1"
    by (simp add: createUser_new [OF assms(1-3) q2 assms(5,6)])
  have "env_next (?s1\<lparr>clock := later\<rparr>) = Quiet"
    using q1 by (simp add: quiet_env_next)
  moreover have "table (?s1\<lparr>clock := later\<rparr>) u = Some user"
    by simp
  ultimately show ?thesis
    by (simp add: first createUser_existing [OF assms(1-3)])
qed

lemma uploadAsset_twice:
  assumes "field gs ''assetId'' = JStr a" and "a \<noteq> []" and "truthy (field gs ''fileName'')"
    and "quiet 3 (script s)" and "table s a = None"
    and "asset = new_asset bucketName (JStr a) (field gs ''fileName'')
                  (if truthy (field gs ''contentType'') then field gs ''contentType''
                   else JStr ''application/octet-stream'')
                  (s3_key (JStr a) (field gs ''fileName'')) (now_seconds s)"
    and "getSignedUrl (PutObjectCommand (JStr bucketName)
            (JStr (s3_key (JStr a) (field gs ''fileName'')))
            (if truthy (field gs ''contentType'') then field gs ''contentType''
             else JStr ''application/octet-stream'')) 3600 = Inr uploadUrl"
  shows "uploadAsset getSignedUrl bucketName (JObj gs)
           ((fst (uploadAsset getSignedUrl bucketName (JObj gs) s))\<lparr>clock := later\<rparr>) =
           (s\<lparr>table := (table s)(a \<mapsto> asset), clock := later, script := tl (tl (tl (script s))),
              sent := sent s @ [GetCommand (''assetId'', JStr a), PutCommand asset ''assetId'',
                                GetCommand (''assetId'', JStr a)]\<rparr>,
            Inr (asset_exists_response asset))"
proof -
  from assms(4) have q2: "quiet 2 (script s)" and q1: "quiet (Suc 0) (tl (tl (script s)))"
    by (simp_all add: numeral_3_eq_3 numeral_2_eq_2 quiet_tl quiet_less)
  let ?s1 = "s\<lparr>table := (table s)(a \<mapsto> asset), script := tl (tl (script s)),
            sent := sent s @ [GetCommand (''assetId'', JStr a), PutCommand asset ''assetId'']\<rparr>"
  have first: "fst (uploadAsset getSignedUrl bucketName (JObj gs) s) = ?s1"
    by (simp add: uploadAsset_new [where getSignedUrl = getSignedUrl, OF assms(1-3) q2 assms(5,6,7)])
  have "env_next (?s1\<lparr>clock := later\<rparr>) = Quiet"
    using q1 by (simp add: quiet_env_next)
  moreover have "table (?s1\<lparr>clock := later\<rparr>) a = Some asset"
    by simp
  ultimately show ?thesis
    by (simp add: first uploadAsset_existing [OF assms(1-3)])
qed

text \<open>
  C1. Create is idempotent, for users and for assets. In a state \<open>s\<close> where the point-read finds
  a record, create sends that one \<^verbatim>\<open>GetCommand\<close> and nothing else, leaves the table as it is
  and answers 200 with the record found. In a state \<open>s0\<close> with no record and a store that
  answers, a second create with the same payload, at any later time, answers 200 with the
  record the first create wrote; the table after the second call is the table after the first.
\<close>

theorem create_is_idempotent:
  assumes "field fs ''userId'' = JStr u" and "u \<noteq> []" and "truthy (field fs ''email'')"
    and "field gs ''assetId'' = JStr a" and "a \<noteq> []" and "truthy (field gs ''fileName'')"
    and "env_next s = Quiet" and "table s u = Some user" and "table s a = Some asset"
    and "quiet 3 (script s0)" and "table s0 u = None" and "table s0 a = None"
    and "getSignedUrl (PutObjectCommand (JStr bucketName)
            (JStr (s3_key (JStr a) (field gs ''fileName'')))
            (if truthy (field gs ''contentType'') then field gs ''contentType''
             else JStr ''application/octet-stream'')) 3600 = Inr uploadUrl"
  shows "createUser (JObj fs) s =
           (s\<lparr>script := tl (script s), sent := sent s @ [GetCommand (''userId'', JStr u)]\<rparr>,
            Inr \<lparr>statusCode = 200,
                 body = JObj [(''message'', JStr ''User already exists''), (''user'', JObj user)]\<rparr>)
         \<and> uploadAsset getSignedUrl bucketName (JObj gs) s =
           (s\<lparr>script := tl (script s), sent := sent s @ [GetCommand (''assetId'', JStr a)]\<rparr>,
            Inr \<lparr>statusCode = 200,
                 body = JObj [(''message'', JStr ''Asset already exists''), (''asset'', JObj asset)]\<rparr>)
         \<and> (\<exists>written. table (fst (createUser (JObj fs) s0)) u = Some written
              \<and> table (fst (createUser (JObj fs) ((fst (createUser (JObj fs) s0))\<lparr>clock := later\<rparr>))) =
                  table (fst (createUser (JObj fs) s0))
              \<and> snd (createUser (JObj fs) ((fst (createUser (JObj fs) s0))\<lparr>clock := later\<rparr>)) =
                  Inr \<lparr>statusCode = 200,
                       body = JObj [(''message'', JStr ''User already exists''), (''user'', JObj written)]\<rparr>)
         \<and> (\<exists>written. table (fst (uploadAsset getSignedUrl bucketName (JObj gs) s0)) a = Some written
              \<and> table (fst (uploadAsset getSignedUrl bucketName (JObj gs)
                    ((fst (uploadAsset getSignedUrl bucketName (JObj gs) s0))\<lparr>clock := later\<rparr>))) =
                  table (fst (uploadAsset getSignedUrl bucketName (JObj gs) s0))
              \<and> snd (uploadAsset getSignedUrl bucketName (JObj gs)
                    ((fst (uploadAsset getSignedUrl bucketName (JObj gs) s0))\<lparr>clock := later\<rparr>)) =
                  Inr \<lparr>statusCode = 200,
                       body = JObj [(''message'', JStr ''Asset already exists''), (''asset'', JObj written)]\<rparr>)"
proof -
  from assms(10) have q2: "quiet 2 (script s0)"
    by (simp add: numeral_3_eq_3 numeral_2_eq_2 quiet_less)
  have "createUser (JObj fs) s =
           (s\<lparr>script := tl (script s), sent := sent s @ [GetCommand (''userId'', JStr u)]\<rparr>,
            Inr \<lparr>statusCode = 200,
                 body = JObj [(''message'', JStr ''User already exists''), (''user'', JObj user)]\<rparr>)"
    by (simp add: createUser_existing [OF assms(1-3,7,8)] user_exists_response_def)
  moreover have "uploadAsset getSignedUrl bucketName (JObj gs) s =
           (s\<lparr>script := tl (script s), sent := sent s @ [GetCommand (''assetId'', JStr a)]\<rparr>,
            Inr \<lparr>statusCode = 200,
                 body = JObj [(''message'', JStr ''Asset already exists''), (''asset'', JObj asset)]\<rparr>)"
    by (simp add: uploadAsset_existing [OF assms(4-6,7,9)] asset_exists_response_def)
  moreover have "\<exists>written. table (fst (createUser (JObj fs) s0)) u = Some written
              \<and> table (fst (createUser (JObj fs) ((fst (createUser (JObj fs) s0))\<lparr>clock := later\<rparr>))) =
                  table (fst (createUser (JObj fs) s0))
              \<and> snd (createUser (JObj fs) ((fst (createUser (JObj fs) s0))\<lparr>clock := later\<rparr>)) =
                  Inr \<lparr>statusCode = 200,
                       body = JObj [(''message'', JStr ''User already exists''), (''user'', JObj written)]\<rparr>"
    unfolding createUser_twice [OF assms(1-3,10,11) refl]
    by (simp add: createUser_new [OF assms(1-3) q2 assms(11) refl] user_exists_response_def)
  moreover have "\<exists>written. table (fst (uploadAsset getSignedUrl bucketName (JObj gs) s0)) a = Some written
              \<and> table (fst (uploadAsset getSignedUrl bucketName (JObj gs)
                    ((fst (uploadAsset getSignedUrl bucketName (JObj gs) s0))\<lparr>clock := later\<rparr>))) =
                  table (fst (uploadAsset getSignedUrl bucketName (JObj gs) s0))
              \<and> snd (uploadAsset getSignedUrl bucketName (JObj gs)
                    ((fst (uploadAsset getSignedUrl bucketName (JObj gs) s0))\<lparr>clock := later\<rparr>)) =
                  Inr \<lparr>statusCode = 200,
                       body = JObj [(''message'', JStr ''Asset already exists''), (''asset'', JObj written)]\<rparr>"
    unfolding uploadAsset_twice [where getSignedUrl = getSignedUrl, OF assms(4-6,10,12) refl assms(13)]
    by (simp add: uploadAsset_new [where getSignedUrl = getSignedUrl, OF assms(4-6) q2 assms(12) refl assms(13)]
        asset_exists_response_def)
  ultimately show ?thesis
    by blast
qed

theorem create_is_idempotent_witness:
  "field payload_u1 ''userId'' = JStr ''u1'' \<and> truthy (field payload_u1 ''email'')
   \<and> field payload_a1 ''assetId'' = JStr ''a1'' \<and> truthy (field payload_a1 ''fileName'')
   \<and> env_next (start [(''u1'', stored_u1), (''a1'', stored_a1)] []) = Quiet
   \<and> table (start [(''u1'', stored_u1), (''a1'', stored_a1)] []) ''u1'' = Some stored_u1
   \<and> table (start [(''u1'', stored_u1), (''a1'', stored_a1)] []) ''a1'' = Some stored_a1
   \<and> quiet 3 (script (start [] [])) \<and> table (start [] []) ''u1'' = None
   \<and> snd (createUser (JObj payload_u1) (start [(''u1'', stored_u1), (''a1'', stored_a1)] [])) =
       Inr \<lparr>statusCode = 200,
            body = JObj [(''message'', JStr ''User already exists''), (''user'', JObj stored_u1)]\<rparr>
   \<and> sent (fst (uploadAsset signer ''bucket'' (JObj payload_a1)
                  (start [(''u1'', stored_u1), (''a1'', stored_a1)] []))) =
       [GetCommand (''assetId'', JStr ''a1'')]"
proof -
  let ?s = "start [(''u1'', stored_u1), (''a1'', stored_a1)] []"
  let ?fresh = "start [] []"
  have h1: "field payload_u1 ''userId'' = JStr ''u1''" and h3: "truthy (field payload_u1 ''email'')"
    and h4: "field payload_a1 ''assetId'' = JStr ''a1''" and h6: "truthy (field payload_a1 ''fileName'')"
    by (simp_all add: payload_u1_def payload_a1_def field_def)
  have h2: "''u1'' \<noteq> []" and h5: "''a1'' \<noteq> []"
    by simp_all
  have h7: "env_next ?s = Quiet" and h8: "table ?s ''u1'' = Some stored_u1"
    and h9: "table ?s ''a1'' = Some stored_a1"
    by (simp_all add: start_def env_next_def)
  have h10: "quiet 3 (script ?fresh)" and h11: "table ?fresh ''u1'' = None" and h12: "table ?fresh ''a1'' = None"
    by (simp_all add: start_def quiet_def)
  have h13: "signer (PutObjectCommand (JStr ''bucket'')
            (JStr (s3_key (JStr ''a1'') (field payload_a1 ''fileName'')))
            (if truthy (field payload_a1 ''contentType'') then field payload_a1 ''contentType''
             else JStr ''application/octet-stream'')) 3600 = Inr ''https://bucket.example/signed''"
    by (simp add: signer_def)
  show ?thesis
    using h1 h3 h4 h6 h7 h8 h9 h10 h11
      create_is_idempotent [where getSignedUrl = signer, OF h1 h2 h3 h4 h5 h6 h7 h8 h9 h10 h11 h12 h13]
    by (simp add: start_def)
qed

lemma createUser_catch_reread:
  "createUser_catch (JStr u) (Exn ''ConditionalCheckFailedException'') s =
     (s\<lparr>table := interfere (env_next s) (table s), script := tl (script s),
        sent := sent s @ [GetCommand (''userId'', JStr u)]\<rparr>,
      case env_next s of
        Throw n \<Rightarrow> Inl (Exn n)
      | _ \<Rightarrow>
          (case interfere (env_next s) (table s) u of
             Some it \<Rightarrow> Inr (user_exists_response it)
           | None \<Rightarrow> Inl (Exn ''ConditionalCheckFailedException'')))"
  by (cases "env_next s")
     (simp_all add: createUser_catch_def user_key_def send_def split: option.split)

lemma uploadAsset_catch_reread:
  "uploadAsset_catch (JStr a) (Exn ''ConditionalCheckFailedException'') s =
     (s\<lparr>table := interfere (env_next s) (table s), script := tl (script s),
        sent := sent s @ [GetCommand (''assetId'', JStr a)]\<rparr>,
      case env_next s of
        Throw n \<Rightarrow> Inl (Exn n)
      | _ \<Rightarrow>
          (case interfere (env_next s) (table s) a of
             Some it \<Rightarrow> Inr (asset_exists_response it)
           | None \<Rightarrow> Inl (Exn ''ConditionalCheckFailedException'')))"
  by (cases "env_next s")
     (simp_all add: uploadAsset_catch_def asset_key_def send_def split: option.split)

lemma env_next_script [simp]:
  "env_next (s\<lparr>table := t\<rparr>) = env_next s"
  "env_next (s\<lparr>sent := cs\<rparr>) = env_next s"
  by (simp_all add: env_next_def)

text \<open>
  C2, as the code has it. The lost race, for users and for assets: the point-read finds nothing
  and another client writes a record under the same identifier just before the conditional
  write, which therefore fails with \<^verbatim>\<open>ConditionalCheckFailedException\<close>. Create then reads
  again, and what it returns is decided by that read alone, whatever the environment does at
  it: if the read finds a record, create answers 200 with it and nothing is thrown; if the
  read finds none (the record was deleted meanwhile), the \<^verbatim>\<open>ConditionalCheckFailedException\<close> is
  thrown again; if the read itself fails, its error is thrown.
\<close>

theorem lost_race_reread:
  assumes "field fs ''userId'' = JStr u" and "u \<noteq> []" and "truthy (field fs ''email'')"
    and "script s = Quiet # OtherPut u w # rest" and "table s u = None"
    and "map_of w ''userId'' \<noteq> None"
    and "field gs ''assetId'' = JStr a" and "a \<noteq> []" and "truthy (field gs ''fileName'')"
    and "script s' = Quiet # OtherPut a w' # rest'" and "table s' a = None"
    and "map_of w' ''assetId'' \<noteq> None"
  shows "createUser (JObj fs) s =
           (s\<lparr>table := interfere (env_next (s\<lparr>script := rest\<rparr>)) ((table s)(u \<mapsto> w)),
              script := tl rest,
              sent := sent s @
                [GetCommand (''userId'', JStr u),
                 PutCommand (new_user (JStr u) (field fs ''email'') (field fs ''name'')
                               (field fs ''department'') (now_seconds s)) ''userId'',
                 GetCommand (''userId'', JStr u)]\<rparr>,
            case env_next (s\<lparr>script := rest\<rparr>) of
              Throw n \<Rightarrow> Inl (Exn n)
            | _ \<Rightarrow>
                (case interfere (env_next (s\<lparr>script := rest\<rparr>)) ((table s)(u \<mapsto> w)) u of
                   Some it \<Rightarrow>
                     Inr \<lparr>statusCode = 200,
                          body = JObj [(''message'', JStr ''User already exists''), (''user'', JObj it)]\<rparr>
                 | None \<Rightarrow> Inl (Exn ''ConditionalCheckFailedException'')))
         \<and> uploadAsset getSignedUrl bucketName (JObj gs) s' =
           (s'\<lparr>table := interfere (env_next (s'\<lparr>script := rest'\<rparr>)) ((table s')(a \<mapsto> w')),
               script := tl rest',
               sent := sent s' @
                 [GetCommand (''assetId'', JStr a),
                  PutCommand (new_asset bucketName (JStr a) (field gs ''fileName'')
                                (if truthy (field gs ''contentType'') then field gs ''contentType''
                                 else JStr ''application/octet-stream'')
                                (s3_key (JStr a) (field gs ''fileName'')) (now_seconds s')) ''assetId'',
                  GetCommand (''assetId'', JStr a)]\<rparr>,
            case env_next (s'\<lparr>script := rest'\<rparr>) of
              Throw n \<Rightarrow> Inl (Exn n)
            | _ \<Rightarrow>
                (case interfere (env_next (s'\<lparr>script := rest'\<rparr>)) ((table s')(a \<mapsto> w')) a of
                   Some it \<Rightarrow>
                     Inr \<lparr>statusCode = 200,
                          body = JObj [(''message'', JStr ''Asset already exists''), (''asset'', JObj it)]\<rparr>
                 | None \<Rightarrow> Inl (Exn ''ConditionalCheckFailedException'')))"
proof -
  have e: "env_next (t\<lparr>table := tb, script := r, sent := cs\<rparr>) = env_next (t\<lparr>script := r\<rparr>)"
    for t :: world and tb r cs
    by (simp add: env_next_def)
  have users: "createUser (JObj fs) s =
      createUser_catch (JStr u) (Exn ''ConditionalCheckFailedException'')
        (s\<lparr>table := (table s)(u \<mapsto> w), script := rest,
           sent := sent s @
             [GetCommand (''userId'', JStr u),
              PutCommand (new_user (JStr u) (field fs ''email'') (field fs ''name'')
                            (field fs ''department'') (now_seconds s)) ''userId'']\<rparr>)"
    by (simp add: createUser_valid [OF assms(1-3)] createUser_try_lost [OF assms(4-6) refl])
  have assets: "uploadAsset getSignedUrl bucketName (JObj gs) s' =
      uploadAsset_catch (JStr a) (Exn ''ConditionalCheckFailedException'')
        (s'\<lparr>table := (table s')(a \<mapsto> w'), script := rest',
            sent := sent s' @
              [GetCommand (''assetId'', JStr a),
               PutCommand (new_asset bucketName (JStr a) (field gs ''fileName'')
                             (if truthy (field gs ''contentType'') then field gs ''contentType''
                              else JStr ''application/octet-stream'')
                             (s3_key (JStr a) (field gs ''fileName'')) (now_seconds s')) ''assetId'']\<rparr>)"
    by (simp add: uploadAsset_valid [OF assms(7-9)] uploadAsset_try_lost [OF assms(10-12) refl])
  show ?thesis
    unfolding users assets createUser_catch_reread uploadAsset_catch_reread e
    by (simp add: user_exists_response_def asset_exists_response_def
        cong: env_step.case_cong option.case_cong)
qed


theorem lost_race_reread_witness:
  "script (start [] [Quiet, OtherPut ''u1'' stored_u1]) = Quiet # OtherPut ''u1'' stored_u1 # []
   \<and> table (start [] [Quiet, OtherPut ''u1'' stored_u1]) ''u1'' = None
   \<and> map_of stored_u1 ''userId'' \<noteq> None
   \<and> script (start [] [Quiet, OtherPut ''a1'' stored_a1, Throw ''Timeout'']) =
       Quiet # OtherPut ''a1'' stored_a1 # [Throw ''Timeout'']
   \<and> map_of stored_a1 ''assetId'' \<noteq> None
   \<and> snd (createUser (JObj payload_u1) (start [] [Quiet, OtherPut ''u1'' stored_u1])) =
       Inr \<lparr>statusCode = 200,
            body = JObj [(''message'', JStr ''User already exists''), (''user'', JObj stored_u1)]\<rparr>
   \<and> table (fst (createUser (JObj payload_u1) (start [] [Quiet, OtherPut ''u1'' stored_u1]))) ''u1'' =
       Some stored_u1
   \<and> snd (uploadAsset signer ''bucket'' (JObj payload_a1)
            (start [] [Quiet, OtherPut ''a1'' stored_a1, Throw ''Timeout''])) =
       Inl (Exn ''Timeout'')"
proof -
  let ?s = "start [] [Quiet, OtherPut ''u1'' stored_u1]"
  let ?t = "start [] [Quiet, OtherPut ''a1'' stored_a1, Throw ''Timeout'']"
  have h1: "field payload_u1 ''userId'' = JStr ''u1''" and h3: "truthy (field payload_u1 ''email'')"
    and h7: "field payload_a1 ''assetId'' = JStr ''a1''" and h9: "truthy (field payload_a1 ''fileName'')"
    by (simp_all add: payload_u1_def payload_a1_def field_def)
  have h2: "''u1'' \<noteq> []" and h8: "''a1'' \<noteq> []"
    by simp_all
  have h4: "script ?s = Quiet # OtherPut ''u1'' stored_u1 # []" and h5: "table ?s ''u1'' = None"
    and h10: "script ?t = Quiet # OtherPut ''a1'' stored_a1 # [Throw ''Timeout'']"
    and h11: "table ?t ''a1'' = None"
    by (simp_all add: start_def)
  have h6: "map_of stored_u1 ''userId'' \<noteq> None" and h12: "map_of stored_a1 ''assetId'' \<noteq> None"
    by (simp_all add: stored_u1_def stored_a1_def)
  note t = lost_race_reread [where getSignedUrl = signer and bucketName = "''bucket''",
      OF h1 h2 h3 h4 h5 h6 h7 h8 h9 h10 h11 h12]
  note t1 = t [THEN conjunct1] and t2 = t [THEN conjunct2]
  have e1: "env_next (?s\<lparr>script := []\<rparr>) = Quiet"
    and e2: "env_next (?t\<lparr>script := [Throw ''Timeout'']\<rparr>) = Throw ''Timeout''"
    by (simp_all add: env_next_def)
  show ?thesis
    using h4 h5 h6 h10 h12 by (simp add: t1 t2 e1 e2)
qed

text \<open>
  The claim as the specification words it fails: the other client's record is deleted again
  before the second read, which finds nothing, so \<^verbatim>\<open>createUser\<close> throws the
  \<^verbatim>\<open>ConditionalCheckFailedException\<close> and the handler answers 500.
\<close>

theorem lost_race_surfaced_counterexample:
  \<open>snd (createUser (JObj payload_u1)
          (start [] [Quiet, OtherPut ''u1'' stored_u1, OtherDelete ''u1''])) =
     Inl (Exn ''ConditionalCheckFailedException'')
   \<and> snd (users_handler example_parse (post_event ''{"userId":"u1","email":"a@b.com"}'')
            (start [] [Quiet, OtherPut ''u1'' stored_u1, OtherDelete ''u1''])) =
     Inr \<lparr>statusCode = 500, body = JObj [(''error'', JStr ''Internal server error'')]\<rparr>
   \<and> sent (fst (createUser (JObj payload_u1)
                 (start [] [Quiet, OtherPut ''u1'' stored_u1, OtherDelete ''u1'']))) =
     [GetCommand (''userId'', JStr ''u1''),
      PutCommand [(''userId'', JStr ''u1''), (''email'', JStr ''a@b.com''),
                  (''createdAt'', JNum 1704067200), (''ttl'', JNum 1711843200)] ''userId'',
      GetCommand (''userId'', JStr ''u1'')]\<close>
proof -
  let ?s = "start [] [Quiet, OtherPut ''u1'' stored_u1, OtherDelete ''u1'']"
  have h1: "field payload_u1 ''userId'' = JStr ''u1''" and h3: "truthy (field payload_u1 ''email'')"
    by (simp_all add: payload_u1_def field_def)
  have h2: "''u1'' \<noteq> []"
    by simp
  have h4: "script ?s = Quiet # OtherPut ''u1'' stored_u1 # [OtherDelete ''u1'']"
    and h5: "table ?s ''u1'' = None"
    by (simp_all add: start_def)
  have h6: "map_of stored_u1 ''userId'' \<noteq> None"
    by (simp add: stored_u1_def)
  have run: "createUser (JObj payload_u1) ?s =
      (?s\<lparr>table := ((table ?s)(''u1'' \<mapsto> stored_u1))(''u1'' := None), script := [],
          sent := sent ?s @
            [GetCommand (''userId'', JStr ''u1''),
             PutCommand (new_user (JStr ''u1'') (field payload_u1 ''email'') (field payload_u1 ''name'')
                           (field payload_u1 ''department'') (now_seconds ?s)) ''userId'',
             GetCommand (''userId'', JStr ''u1'')]\<rparr>,
       Inl (Exn ''ConditionalCheckFailedException''))"
    by (simp add: createUser_valid [OF h1 h2 h3] createUser_try_lost [OF h4 h5 h6 refl]
        createUser_catch_reread env_next_def)
  have ev: \<open>users_handler example_parse (post_event ''{"userId":"u1","email":"a@b.com"}'') ?s =
      catch_all (createUser (JObj payload_u1) ?s)\<close>
    by (rule users_handler_POST) (simp_all add: post_event_def parse_body_def example_parse_def)
  have item: "new_user (JStr ''u1'') (field payload_u1 ''email'') (field payload_u1 ''name'')
                (field payload_u1 ''department'') (now_seconds ?s) =
      [(''userId'', JStr ''u1''), (''email'', JStr ''a@b.com''),
       (''createdAt'', JNum 1704067200), (''ttl'', JNum 1711843200)]"
    by (simp add: new_user_def payload_u1_def field_def now_seconds_def start_def)
  show ?thesis
    unfolding ev run item by (simp add: start_def)
qed

section \<open>What creation writes\<close>

lemma field_new_user:
  "field (new_user userId email nm department now) ''createdAt'' = JNum now"
  "field (new_user userId email nm department now) ''ttl'' = JNum (now + 7776000)"
  "field (new_user userId email nm department now) ''name'' = (if truthy nm then nm else JUndefined)"
  "field (new_user userId email nm department now) ''department'' =
     (if truthy department then department else JUndefined)"
  "map_of (new_user userId email nm department now) ''name'' = (if truthy nm then Some nm else None)"
  "map_of (new_user userId email nm department now) ''department'' =
     (if truthy department then Some department else None)"
  by (simp_all add: new_user_def field_def)

text \<open>
  C8. \<^verbatim>\<open>POST /users\<close> with a string \<^verbatim>\<open>userId\<close> and a truthy \<^verbatim>\<open>email\<close>, no record under that
  identifier and a store that answers: the handler writes the record and returns 201 with it;
  the record's \<^verbatim>\<open>createdAt\<close> is the current time in seconds and its \<^verbatim>\<open>ttl\<close> is
  \<^verbatim>\<open>createdAt + 7776000\<close>. The same request again, at any later time, returns 200 with that
  same record, hence the same \<^verbatim>\<open>createdAt\<close>. A new asset, created from a string \<^verbatim>\<open>assetId\<close> and
  \<^verbatim>\<open>fileName\<close> and no \<^verbatim>\<open>contentType\<close>, has content type \<^verbatim>\<open>application/octet-stream\<close>, key
  \<^verbatim>\<open>assets/{assetId}/{fileName}\<close>, status \<^verbatim>\<open>pending\<close> and \<^verbatim>\<open>ttl = createdAt + 30 days\<close>.
\<close>

theorem creation_postconditions:
  assumes "httpMethod ev = ''POST''" and "parse_body JSON_parse ev = Inr (JObj fs)"
    and "field fs ''userId'' = JStr u" and "u \<noteq> []" and "truthy (field fs ''email'')"
    and "quiet 3 (script s)" and "table s u = None"
    and "user = new_user (JStr u) (field fs ''email'') (field fs ''name'') (field fs ''department'')
                  (now_seconds s)"
    and "field gs ''assetId'' = JStr a" and "a \<noteq> []"
    and "field gs ''fileName'' = JStr f" and "f \<noteq> []"
    and "\<not> truthy (field gs ''contentType'')" and "table s a = None"
    and "getSignedUrl (PutObjectCommand (JStr bucketName) (JStr (''assets/'' @ a @ ''/'' @ f))
            (JStr ''application/octet-stream'')) 3600 = Inr uploadUrl"
    and "asset = [(''assetId'', JStr a), (''fileName'', JStr f),
                  (''contentType'', JStr ''application/octet-stream''),
                  (''s3Key'', JStr (''assets/'' @ a @ ''/'' @ f)), (''s3Bucket'', JStr bucketName),
                  (''status'', JStr ''pending''), (''createdAt'', JNum (now_seconds s)),
                  (''ttl'', JNum (now_seconds s + 30 * 24 * 60 * 60))]"
  shows "users_handler JSON_parse ev s =
           (s\<lparr>table := (table s)(u \<mapsto> user), script := tl (tl (script s)),
              sent := sent s @ [GetCommand (''userId'', JStr u), PutCommand user ''userId'']\<rparr>,
            Inr \<lparr>statusCode = 201,
                 body = JObj [(''message'', JStr ''User created''), (''user'', JObj user)]\<rparr>)
         \<and> field user ''createdAt'' = JNum (now_seconds s)
         \<and> field user ''ttl'' = JNum (now_seconds s + 7776000)
         \<and> snd (users_handler JSON_parse ev ((fst (users_handler JSON_parse ev s))\<lparr>clock := later\<rparr>)) =
             Inr \<lparr>statusCode = 200,
                  body = JObj [(''message'', JStr ''User already exists''), (''user'', JObj user)]\<rparr>
         \<and> uploadAsset getSignedUrl bucketName (JObj gs) s =
           (s\<lparr>table := (table s)(a \<mapsto> asset), script := tl (tl (script s)),
              sent := sent s @ [GetCommand (''assetId'', JStr a), PutCommand asset ''assetId'']\<rparr>,
            Inr \<lparr>statusCode = 201,
                 body = JObj [(''message'', JStr ''Asset metadata created''), (''asset'', JObj asset),
                              (''uploadUrl'', JStr uploadUrl)]\<rparr>)"
proof -
  from assms(6) have q2: "quiet 2 (script s)"
    by (simp add: numeral_3_eq_3 numeral_2_eq_2 quiet_less)
  have h: "users_handler JSON_parse ev t = catch_all (createUser (JObj fs) t)" for t
    using assms(1,2) by (rule users_handler_POST)
  have first: "users_handler JSON_parse ev s =
           (s\<lparr>table := (table s)(u \<mapsto> user), script := tl (tl (script s)),
              sent := sent s @ [GetCommand (''userId'', JStr u), PutCommand user ''userId'']\<rparr>,
            Inr \<lparr>statusCode = 201,
                 body = JObj [(''message'', JStr ''User created''), (''user'', JObj user)]\<rparr>)"
    by (simp add: h createUser_new [OF assms(3-5) q2 assms(7,8)])
  have "fst (users_handler JSON_parse ev s) = fst (createUser (JObj fs) s)"
    by (simp add: first createUser_new [OF assms(3-5) q2 assms(7,8)])
  then have second: "snd (users_handler JSON_parse ev ((fst (users_handler JSON_parse ev s))\<lparr>clock := later\<rparr>)) =
             Inr \<lparr>statusCode = 200,
                  body = JObj [(''message'', JStr ''User already exists''), (''user'', JObj user)]\<rparr>"
    by (simp add: h createUser_twice [OF assms(3-7,8)] user_exists_response_def)
  have fields: "field user ''createdAt'' = JNum (now_seconds s)"
    "field user ''ttl'' = JNum (now_seconds s + 7776000)"
    by (simp_all add: assms(8) field_new_user)
  have ct: "(if truthy (field gs ''contentType'') then field gs ''contentType''
             else JStr ''application/octet-stream'') = JStr ''application/octet-stream''"
    using assms(13) by simp
  have key: "s3_key (JStr a) (field gs ''fileName'') = ''assets/'' @ a @ ''/'' @ f"
    by (simp add: s3_key_def assms(11))
  have item: "asset = new_asset bucketName (JStr a) (field gs ''fileName'')
                  (if truthy (field gs ''contentType'') then field gs ''contentType''
                   else JStr ''application/octet-stream'')
                  (s3_key (JStr a) (field gs ''fileName'')) (now_seconds s)"
    unfolding ct key by (simp add: assms(16) new_asset_def assms(11))
  have fn: "truthy (field gs ''fileName'')"
    by (simp add: assms(11,12))
  have url: "getSignedUrl (PutObjectCommand (JStr bucketName)
            (JStr (s3_key (JStr a) (field gs ''fileName'')))
            (if truthy (field gs ''contentType'') then field gs ''contentType''
             else JStr ''application/octet-stream'')) 3600 = Inr uploadUrl"
    unfolding ct key by (rule assms(15))
  have upload: "uploadAsset getSignedUrl bucketName (JObj gs) s =
           (s\<lparr>table := (table s)(a \<mapsto> asset), script := tl (tl (script s)),
              sent := sent s @ [GetCommand (''assetId'', JStr a), PutCommand asset ''assetId'']\<rparr>,
            Inr \<lparr>statusCode = 201,
                 body = JObj [(''message'', JStr ''Asset metadata created''), (''asset'', JObj asset),
                              (''uploadUrl'', JStr uploadUrl)]\<rparr>)"
    by (rule uploadAsset_new [where getSignedUrl = getSignedUrl, OF assms(9,10) fn q2 assms(14) item url])
  from first fields second upload show ?thesis
    by blast
qed

theorem creation_postconditions_witness:
  \<open>httpMethod (post_event ''{"userId":"u1","email":"a@b.com"}'') = ''POST''
   \<and> parse_body example_parse (post_event ''{"userId":"u1","email":"a@b.com"}'') = Inr (JObj payload_u1)
   \<and> field payload_u1 ''userId'' = JStr ''u1'' \<and> truthy (field payload_u1 ''email'')
   \<and> quiet 3 (script (start [] [])) \<and> table (start [] []) ''u1'' = None
   \<and> field payload_a1 ''assetId'' = JStr ''a1'' \<and> field payload_a1 ''fileName'' = JStr ''report.pdf''
   \<and> \<not> truthy (field payload_a1 ''contentType'') \<and> table (start [] []) ''a1'' = None
   \<and> snd (users_handler example_parse (post_event ''{"userId":"u1","email":"a@b.com"}'') (start [] [])) =
       Inr \<lparr>statusCode = 201,
            body = JObj [(''message'', JStr ''User created''),
                         (''user'', JObj [(''userId'', JStr ''u1''), (''email'', JStr ''a@b.com''),
                                          (''createdAt'', JNum 1704067200),
                                          (''ttl'', JNum 1711843200)])]\<rparr>
   \<and> snd (users_handler example_parse (post_event ''{"userId":"u1","email":"a@b.com"}'')
            ((fst (users_handler example_parse (post_event ''{"userId":"u1","email":"a@b.com"}'')
                     (start [] [])))\<lparr>clock := 1704070800000\<rparr>)) =
       Inr \<lparr>statusCode = 200,
            body = JObj [(''message'', JStr ''User already exists''),
                         (''user'', JObj [(''userId'', JStr ''u1''), (''email'', JStr ''a@b.com''),
                                          (''createdAt'', JNum 1704067200),
                                          (''ttl'', JNum 1711843200)])]\<rparr>
   \<and> snd (uploadAsset signer ''bucket'' (JObj payload_a1) (start [] [])) =
       Inr \<lparr>statusCode = 201,
            body = JObj [(''message'', JStr ''Asset metadata created''),
                         (''asset'', JObj [(''assetId'', JStr ''a1''), (''fileName'', JStr ''report.pdf''),
                                           (''contentType'', JStr ''application/octet-stream''),
                                           (''s3Key'', JStr ''assets/a1/report.pdf''),
                                           (''s3Bucket'', JStr ''bucket''), (''status'', JStr ''pending''),
                                           (''createdAt'', JNum 1704067200),
                                           (''ttl'', JNum 1706659200)]),
                         (''uploadUrl'', JStr ''https://bucket.example/signed'')]\<rparr>\<close>
proof -
  let ?ev = \<open>post_event ''{"userId":"u1","email":"a@b.com"}''\<close>
  let ?w = "start [] []"
  have h1: "httpMethod ?ev = ''POST''" and h2: "parse_body example_parse ?ev = Inr (JObj payload_u1)"
    by (simp_all add: post_event_def parse_body_def example_parse_def)
  have h3: "field payload_u1 ''userId'' = JStr ''u1''" and h5: "truthy (field payload_u1 ''email'')"
    and h9: "field payload_a1 ''assetId'' = JStr ''a1''"
    and h11: "field payload_a1 ''fileName'' = JStr ''report.pdf''"
    and h13: "\<not> truthy (field payload_a1 ''contentType'')"
    by (simp_all add: payload_u1_def payload_a1_def field_def)
  have h4: "''u1'' \<noteq> []" and h10: "''a1'' \<noteq> []" and h12: "''report.pdf'' \<noteq> []"
    by simp_all
  have h6: "quiet 3 (script ?w)" and h7: "table ?w ''u1'' = None" and h14: "table ?w ''a1'' = None"
    by (simp_all add: start_def quiet_def)
  have h15: "signer (PutObjectCommand (JStr ''bucket'') (JStr (''assets/'' @ ''a1'' @ ''/'' @ ''report.pdf''))
            (JStr ''application/octet-stream'')) 3600 = Inr ''https://bucket.example/signed''"
    by (simp add: signer_def)
  have n: "now_seconds ?w = 1704067200"
    by (simp add: now_seconds_def start_def)
  have u: "new_user (JStr ''u1'') (field payload_u1 ''email'') (field payload_u1 ''name'')
             (field payload_u1 ''department'') 1704067200 =
           [(''userId'', JStr ''u1''), (''email'', JStr ''a@b.com''),
            (''createdAt'', JNum 1704067200), (''ttl'', JNum 1711843200)]"
    by (simp add: new_user_def payload_u1_def field_def)
  note t = creation_postconditions [where JSON_parse = example_parse and getSignedUrl = signer
        and later = 1704070800000,
        OF h1 h2 h3 h4 h5 h6 h7 refl h9 h10 h11 h12 h13 h14 h15 refl]
  note t1 = t [THEN conjunct1]
    and t4 = t [THEN conjunct2, THEN conjunct2, THEN conjunct2, THEN conjunct1]
    and t5 = t [THEN conjunct2, THEN conjunct2, THEN conjunct2, THEN conjunct2]
  show ?thesis
    using h1 h2 h3 h5 h6 h7 h9 h11 h13 h14 t1 t4 t5
    by (simp add: u n)
qed

lemma createUser_invalid:
  assumes "\<not> truthy (field fs ''userId'') \<or> \<not> truthy (field fs ''email'')"
  shows "createUser (JObj fs) s =
         (s, Inr \<lparr>statusCode = 400, body = JObj [(''error'', JStr ''userId and email are required'')]\<rparr>)"
  using assms by (auto simp: createUser_def error_body_def)

lemma uploadAsset_invalid:
  assumes "\<not> truthy (field gs ''assetId'') \<or> \<not> truthy (field gs ''fileName'')"
  shows "uploadAsset getSignedUrl bucketName (JObj gs) s =
         (s, Inr \<lparr>statusCode = 400, body = JObj [(''error'', JStr ''assetId and fileName are required'')]\<rparr>)"
  using assms by (auto simp: uploadAsset_def error_body_def Let_def)

lemma field_new_asset:
  "field (new_asset bucketName assetId fileName contentType s3Key now) ''contentType'' = contentType"
  by (simp add: new_asset_def field_def)

lemma field_Nil: "field [] k = JUndefined"
  by (simp add: field_def)

text \<open>
  C9. Required fields are tested for truthiness. A \<^verbatim>\<open>POST /users\<close> whose \<^verbatim>\<open>userId\<close> or \<^verbatim>\<open>email\<close>
  is falsy (the empty string and \<^verbatim>\<open>undefined\<close> both are) gets the 400 an empty object gets, and
  nothing is sent to the store; likewise \<^verbatim>\<open>POST /assets\<close> with a falsy \<^verbatim>\<open>assetId\<close> or
  \<^verbatim>\<open>fileName\<close>. The stored asset has the given \<^verbatim>\<open>contentType\<close> if it is truthy and
  \<^verbatim>\<open>application/octet-stream\<close> otherwise. The stored user has \<^verbatim>\<open>name\<close> exactly if the given
  \<^verbatim>\<open>name\<close> is truthy, and \<^verbatim>\<open>department\<close> exactly if the given \<^verbatim>\<open>department\<close> is truthy, each
  on its own.
\<close>

theorem falsy_fields_are_dropped:
  assumes "\<not> truthy (field bad ''userId'') \<or> \<not> truthy (field bad ''email'')"
    and "\<not> truthy (field bad' ''assetId'') \<or> \<not> truthy (field bad' ''fileName'')"
    and "field fs ''userId'' = JStr u" and "u \<noteq> []" and "truthy (field fs ''email'')"
    and "field gs ''assetId'' = JStr a" and "a \<noteq> []" and "truthy (field gs ''fileName'')"
    and "quiet 2 (script s)" and "table s u = None" and "table s a = None"
    and "getSignedUrl (PutObjectCommand (JStr bucketName)
            (JStr (s3_key (JStr a) (field gs ''fileName'')))
            (if truthy (field gs ''contentType'') then field gs ''contentType''
             else JStr ''application/octet-stream'')) 3600 = Inr uploadUrl"
  shows "createUser (JObj bad) s =
           (s, Inr \<lparr>statusCode = 400, body = JObj [(''error'', JStr ''userId and email are required'')]\<rparr>)
         \<and> createUser (JObj bad) s = createUser (JObj []) s
         \<and> uploadAsset getSignedUrl bucketName (JObj bad') s =
           (s, Inr \<lparr>statusCode = 400, body = JObj [(''error'', JStr ''assetId and fileName are required'')]\<rparr>)
         \<and> uploadAsset getSignedUrl bucketName (JObj bad') s = uploadAsset getSignedUrl bucketName (JObj []) s
         \<and> \<not> truthy (JStr []) \<and> \<not> truthy JUndefined
         \<and> (\<exists>stored. table (fst (uploadAsset getSignedUrl bucketName (JObj gs) s)) a = Some stored
                \<and> field stored ''contentType'' =
                    (if truthy (field gs ''contentType'') then field gs ''contentType''
                     else JStr ''application/octet-stream''))
         \<and> (\<exists>stored. table (fst (createUser (JObj fs) s)) u = Some stored
                \<and> map_of stored ''name'' =
                    (if truthy (field fs ''name'') then Some (field fs ''name'') else None)
                \<and> map_of stored ''department'' =
                    (if truthy (field fs ''department'') then Some (field fs ''department'') else None)
                \<and> stored =
                    [(''userId'', JStr u), (''email'', field fs ''email''),
                     (''createdAt'', JNum (now_seconds s)),
                     (''ttl'', JNum (now_seconds s + 90 * 24 * 60 * 60))]
                    @ (if truthy (field fs ''name'') then [(''name'', field fs ''name'')] else [])
                    @ (if truthy (field fs ''department'')
                       then [(''department'', field fs ''department'')] else []))"
proof -
  have bad: "createUser (JObj bad) s =
      (s, Inr \<lparr>statusCode = 400, body = JObj [(''error'', JStr ''userId and email are required'')]\<rparr>)"
    using assms(1) by (rule createUser_invalid)
  have none: "createUser (JObj []) s =
      (s, Inr \<lparr>statusCode = 400, body = JObj [(''error'', JStr ''userId and email are required'')]\<rparr>)"
    by (rule createUser_invalid) (simp add: field_Nil)
  have bad': "uploadAsset getSignedUrl bucketName (JObj bad') s =
      (s, Inr \<lparr>statusCode = 400, body = JObj [(''error'', JStr ''assetId and fileName are required'')]\<rparr>)"
    using assms(2) by (rule uploadAsset_invalid)
  have none': "uploadAsset getSignedUrl bucketName (JObj []) s =
      (s, Inr \<lparr>statusCode = 400, body = JObj [(''error'', JStr ''assetId and fileName are required'')]\<rparr>)"
    by (rule uploadAsset_invalid) (simp add: field_Nil)
  have asset: "\<exists>stored. table (fst (uploadAsset getSignedUrl bucketName (JObj gs) s)) a = Some stored
                \<and> field stored ''contentType'' =
                    (if truthy (field gs ''contentType'') then field gs ''contentType''
                     else JStr ''application/octet-stream'')"
    unfolding uploadAsset_new [where getSignedUrl = getSignedUrl, OF assms(6-8,9,11) refl assms(12)]
    by (simp add: field_new_asset)
  have user: "\<exists>stored. table (fst (createUser (JObj fs) s)) u = Some stored
                \<and> map_of stored ''name'' =
                    (if truthy (field fs ''name'') then Some (field fs ''name'') else None)
                \<and> map_of stored ''department'' =
                    (if truthy (field fs ''department'') then Some (field fs ''department'') else None)
                \<and> stored =
                    [(''userId'', JStr u), (''email'', field fs ''email''),
                     (''createdAt'', JNum (now_seconds s)),
                     (''ttl'', JNum (now_seconds s + 90 * 24 * 60 * 60))]
                    @ (if truthy (field fs ''name'') then [(''name'', field fs ''name'')] else [])
                    @ (if truthy (field fs ''department'')
                       then [(''department'', field fs ''department'')] else [])"
    unfolding createUser_new [OF assms(3-5,9,10) refl]
    by (simp add: field_new_user) (simp add: new_user_def)
  from bad none bad' none' asset user show ?thesis
    by simp
qed

theorem falsy_fields_are_dropped_witness:
  "field [(''userId'', JStr []), (''email'', JStr ''a@b.com'')] ''userId'' = JStr []
   \<and> field [(''assetId'', JStr ''a1''), (''fileName'', JStr [])] ''fileName'' = JStr []
   \<and> \<not> truthy (field (payload_u1 @ [(''name'', JStr []), (''department'', JStr ''Eng'')]) ''name'')
   \<and> truthy (field (payload_u1 @ [(''name'', JStr []), (''department'', JStr ''Eng'')]) ''department'')
   \<and> \<not> truthy (field (payload_a1 @ [(''contentType'', JStr [])]) ''contentType'')
   \<and> quiet 2 (script (start [] [])) \<and> table (start [] []) ''u1'' = None
   \<and> table (start [] []) ''a1'' = None
   \<and> snd (createUser (JObj [(''userId'', JStr []), (''email'', JStr ''a@b.com'')]) (start [] [])) =
       Inr \<lparr>statusCode = 400, body = JObj [(''error'', JStr ''userId and email are required'')]\<rparr>
   \<and> snd (uploadAsset signer ''bucket'' (JObj [(''assetId'', JStr ''a1''), (''fileName'', JStr [])])
            (start [] [])) =
       Inr \<lparr>statusCode = 400, body = JObj [(''error'', JStr ''assetId and fileName are required'')]\<rparr>
   \<and> (\<exists>stored. table (fst (createUser
                       (JObj (payload_u1 @ [(''name'', JStr []), (''department'', JStr ''Eng'')]))
                       (start [] []))) ''u1'' = Some stored
          \<and> stored = [(''userId'', JStr ''u1''), (''email'', JStr ''a@b.com''),
                       (''createdAt'', JNum 1704067200), (''ttl'', JNum 1711843200),
                       (''department'', JStr ''Eng'')])
   \<and> (\<exists>stored. table (fst (uploadAsset signer ''bucket''
                       (JObj (payload_a1 @ [(''contentType'', JStr [])])) (start [] []))) ''a1'' =
                 Some stored
          \<and> field stored ''contentType'' = JStr ''application/octet-stream'')"
proof -
  let ?bad = "[(''userId'', JStr []), (''email'', JStr ''a@b.com'')]"
  let ?bad' = "[(''assetId'', JStr ''a1''), (''fileName'', JStr [])]"
  let ?fs = "payload_u1 @ [(''name'', JStr []), (''department'', JStr ''Eng'')]"
  let ?gs = "payload_a1 @ [(''contentType'', JStr [])]"
  let ?w = "start [] []"
  have h1: "\<not> truthy (field ?bad ''userId'') \<or> \<not> truthy (field ?bad ''email'')"
    and h2: "\<not> truthy (field ?bad' ''assetId'') \<or> \<not> truthy (field ?bad' ''fileName'')"
    by (simp_all add: field_def)
  have h3: "field ?fs ''userId'' = JStr ''u1''" and h5: "truthy (field ?fs ''email'')"
    and n1: "\<not> truthy (field ?fs ''name'')" and n2: "truthy (field ?fs ''department'')"
    and h6: "field ?gs ''assetId'' = JStr ''a1''" and h8: "truthy (field ?gs ''fileName'')"
    and n3: "\<not> truthy (field ?gs ''contentType'')"
    by (simp_all add: payload_u1_def payload_a1_def field_def)
  have h4: "''u1'' \<noteq> []" and h7: "''a1'' \<noteq> []"
    by simp_all
  have h9: "quiet 2 (script ?w)" and h10: "table ?w ''u1'' = None" and h11: "table ?w ''a1'' = None"
    by (simp_all add: start_def quiet_def)
  have h12: "signer (PutObjectCommand (JStr ''bucket'')
            (JStr (s3_key (JStr ''a1'') (field ?gs ''fileName'')))
            (if truthy (field ?gs ''contentType'') then field ?gs ''contentType''
             else JStr ''application/octet-stream'')) 3600 = Inr ''https://bucket.example/signed''"
    by (simp add: signer_def)
  have n: "now_seconds ?w = 1704067200"
    by (simp add: now_seconds_def start_def)
  have e: "field ?fs ''email'' = JStr ''a@b.com''" and d: "field ?fs ''department'' = JStr ''Eng''"
    by (simp_all add: payload_u1_def field_def)
  note t = falsy_fields_are_dropped [where getSignedUrl = signer,
      OF h1 h2 h3 h4 h5 h6 h7 h8 h9 h10 h11 h12]
  note t1 = t [THEN conjunct1]
    and t3 = t [THEN conjunct2, THEN conjunct2, THEN conjunct1]
    and t7 = t [THEN conjunct2, THEN conjunct2, THEN conjunct2, THEN conjunct2, THEN conjunct2,
                THEN conjunct2, THEN conjunct1]
    and t8 = t [THEN conjunct2, THEN conjunct2, THEN conjunct2, THEN conjunct2, THEN conjunct2,
                THEN conjunct2, THEN conjunct2]
  from t8 n1 have u: "\<exists>stored. table (fst (createUser (JObj ?fs) ?w)) ''u1'' = Some stored
          \<and> stored = [(''userId'', JStr ''u1''), (''email'', JStr ''a@b.com''),
                       (''createdAt'', JNum 1704067200), (''ttl'', JNum 1711843200),
                       (''department'', JStr ''Eng'')]"
    unfolding n e d by simp
  from t7 n3 have c: "\<exists>stored. table (fst (uploadAsset signer ''bucket'' (JObj ?gs) ?w)) ''a1'' = Some stored
          \<and> field stored ''contentType'' = JStr ''application/octet-stream''"
    by simp
  have b1: "field ?bad ''userId'' = JStr []" and b2: "field ?bad' ''fileName'' = JStr []"
    by (simp_all add: field_def)
  show ?thesis
    using b1 b2 n1 n2 n3 h9 h10 h11 t1 t3 u c
    by simp
qed

section \<open>Partial update\<close>

lemma updateUser_loop_skips_userId:
  "\<forall>c \<in> set (fst acc). fst c \<noteq> ''userId'' \<Longrightarrow>
   \<forall>c \<in> set (fst (updateUser_loop es acc)). fst c \<noteq> ''userId''"
  by (induction es acc rule: updateUser_loop.induct) auto

lemma update_request_skips_userId:
  "\<forall>c \<in> set (fst (update_request now es)). fst c \<noteq> ''userId''"
  unfolding update_request_def by (rule updateUser_loop_skips_userId) simp

lemma map_of_assign: "map_of (assign k v it) k' = (if k' = k then Some v else map_of it k')"
  by (induction it) auto

lemma updateUser_loop_closed:
  "updateUser_loop es (updateExpr, exprAttr) =
     (updateExpr @ map (\<lambda>(k, v). (k, placeholder k)) (supplied es),
      fold (\<lambda>(k, v). assign (placeholder k) v) (supplied es) exprAttr)"
  by (induction es arbitrary: updateExpr exprAttr) (auto simp: supplied_def)

lemma map_of_fold_assign:
  "distinct (map fst es) \<Longrightarrow>
   map_of (fold (\<lambda>(k, v). assign (placeholder k) v) es vals) p =
     (case map_of (map (\<lambda>(k, v). (placeholder k, v)) es) p of
        Some v \<Rightarrow> Some v
      | None \<Rightarrow> map_of vals p)"
proof (induction es arbitrary: vals)
  case Nil
  then show ?case by simp
next
  case (Cons e es)
  obtain k v where e: "e = (k, v)" by (cases e)
  from Cons.prems e have k: "k \<notin> fst ` set es" and d: "distinct (map fst es)"
    by auto
  from k have "map_of (map (\<lambda>(k, v). (placeholder k, v)) es) (placeholder k) = None"
    by (auto simp: map_of_eq_None_iff image_iff placeholder_def)
  with Cons.IH [OF d] e show ?case
    by (auto simp: map_of_assign split: option.splits)
qed

lemma apply_set_result:
  "distinct (map fst cs) \<Longrightarrow> \<forall>(a, p) \<in> set cs. map_of vals p \<noteq> None \<Longrightarrow>
   \<exists>new. apply_set cs vals it = Some new \<and>
     (\<forall>a. map_of new a =
        (case map_of cs a of Some p \<Rightarrow> map_of vals p | None \<Rightarrow> map_of it a))"
proof (induction cs arbitrary: it)
  case Nil
  then show ?case by simp
next
  case (Cons c cs)
  obtain a p where c: "c = (a, p)" by (cases c)
  from Cons.prems c obtain v where v: "map_of vals p = Some v"
    by auto
  from Cons.prems c have fresh: "map_of cs a = None" and d: "distinct (map fst cs)"
    by (auto simp: map_of_eq_None_iff)
  from Cons.prems have "\<forall>(a, p) \<in> set cs. map_of vals p \<noteq> None"
    by simp
  from Cons.IH [OF d this, of "assign a v it"]
  obtain new where new: "apply_set cs vals (assign a v it) = Some new"
    and m: "\<And>a'. map_of new a' =
        (case map_of cs a' of Some p \<Rightarrow> map_of vals p | None \<Rightarrow> map_of (assign a v it) a')"
    by blast
  have "apply_set (c # cs) vals it = Some new"
    by (simp add: c v new)
  moreover have "map_of new a' =
        (case map_of (c # cs) a' of Some p \<Rightarrow> map_of vals p | None \<Rightarrow> map_of it a')" for a'
    using fresh by (simp add: m c v map_of_assign split: option.splits)
  ultimately show ?case
    by blast
qed

lemma supplied_keys:
  "distinct (map fst es) \<Longrightarrow> distinct (map fst (supplied es))"
  "(k, v) \<in> set (supplied es) \<longleftrightarrow> (k, v) \<in> set es \<and> k \<noteq> ''userId''"
  by (auto simp: supplied_def distinct_map_filter)

lemma update_request_values:
  assumes "distinct (map fst es)" and "''updatedAt'' \<notin> fst ` set es"
    and "update_request now es = (updateExpr, exprAttr)"
  shows "updateExpr = (''updatedAt'', '':updatedAt'') # map (\<lambda>(k, v). (k, placeholder k)) (supplied es)"
    and "distinct (map fst updateExpr)"
    and "map_of exprAttr '':updatedAt'' = Some (JNum now)"
    and "(k, v) \<in> set es \<Longrightarrow> k \<noteq> ''userId'' \<Longrightarrow> map_of exprAttr (placeholder k) = Some v"
proof -
  from assms(3) have cl: "updateExpr = (''updatedAt'', '':updatedAt'') # map (\<lambda>(k, v). (k, placeholder k)) (supplied es)"
    by (simp add: update_request_def updateUser_loop_closed)
  then show "updateExpr = (''updatedAt'', '':updatedAt'') # map (\<lambda>(k, v). (k, placeholder k)) (supplied es)" .
  from assms(3) have vals: "exprAttr = fold (\<lambda>(k, v). assign (placeholder k) v) (supplied es) [('':updatedAt'', JNum now)]"
    by (simp add: update_request_def updateUser_loop_closed)
  have d: "distinct (map fst (supplied es))"
    using assms(1) by (rule supplied_keys)
  have "map fst (map (\<lambda>(k, v). (k, placeholder k)) xs) = map fst xs" for xs :: "(string \<times> json) list"
    by (induction xs) auto
  then have keys: "map fst updateExpr = ''updatedAt'' # map fst (supplied es)"
    unfolding cl by (simp only: list.map fst_conv)
  have "''updatedAt'' \<notin> fst ` set (supplied es)"
    using assms(2) by (auto simp: supplied_def)
  with d show "distinct (map fst updateExpr)"
    unfolding keys by simp
  have "distinct (map fst xs) \<Longrightarrow> distinct (map fst (map (\<lambda>(k, v). (placeholder k, v)) xs))"
    for xs :: "(string \<times> json) list"
    by (induction xs) (auto simp: image_iff placeholder_def)
  from this [OF d] have d': "distinct (map fst (map (\<lambda>(k, v). (placeholder k, v)) (supplied es)))" .
  show "map_of exprAttr '':updatedAt'' = Some (JNum now)"
  proof -
    have "map_of (map (\<lambda>(k, v). (placeholder k, v)) (supplied es)) '':updatedAt'' = None"
      using assms(2) by (auto simp: map_of_eq_None_iff supplied_def image_iff placeholder_def)
    then show ?thesis
      by (simp add: vals map_of_fold_assign [OF d])
  qed
  show "map_of exprAttr (placeholder k) = Some v" if "(k, v) \<in> set es" and "k \<noteq> ''userId''"
  proof -
    from that have "(k, v) \<in> set (supplied es)"
      by (simp add: supplied_keys)
    then have "(placeholder k, v) \<in> set (map (\<lambda>(k, v). (placeholder k, v)) (supplied es))"
      by force
    with d' have "map_of (map (\<lambda>(k, v). (placeholder k, v)) (supplied es)) (placeholder k) = Some v"
      by (rule map_of_is_SomeI)
    then show ?thesis
      by (simp add: vals map_of_fold_assign [OF d])
  qed
qed


lemma accepted_state [simp]:
  "accepted (s\<lparr>script := es\<rparr>) cl = accepted s cl"
  "accepted (s\<lparr>sent := cs\<rparr>) cl = accepted s cl"
  "accepted (s\<lparr>table := t\<rparr>) cl = accepted s cl"
  "accepted (s\<lparr>clock := c\<rparr>) cl = accepted s cl"
  by (simp_all add: accepted_def)

lemma send_Update_Quiet:
  "env_next s = Quiet \<Longrightarrow> table s k = Some it \<Longrightarrow> accepted s cl \<Longrightarrow>
   apply_set cl vals it = Some new \<Longrightarrow>
   send (UpdateCommand (a, JStr k) cl vals) s =
     (s\<lparr>table := (table s)(k \<mapsto> new), script := tl (script s),
        sent := sent s @ [UpdateCommand (a, JStr k) cl vals]\<rparr>,
      Inr \<lparr>Item = None, Attributes = Some new\<rparr>)"
  by (simp add: send_def)

lemma send_Update_refused:
  "env_next s = Quiet \<Longrightarrow> \<not> accepted s cl \<Longrightarrow>
   send (UpdateCommand (a, JStr k) cl vals) s =
     (s\<lparr>script := tl (script s), sent := sent s @ [UpdateCommand (a, JStr k) cl vals]\<rparr>,
      Inl (Exn ''ValidationException''))"
  by (simp add: send_def)

text \<open>
  Where the store refuses the expression. A body with the key \<^verbatim>\<open>updatedAt\<close> names that
  attribute in two clauses; a body with a key the store refuses bare carries it into the
  expression as it is.
\<close>

lemma update_request_overlap:
  assumes "(''updatedAt'', v) \<in> set es"
  shows "\<not> distinct (map fst (fst (update_request now es)))"
proof -
  from assms have "(''updatedAt'', v) \<in> set (supplied es)"
    by (simp add: supplied_def)
  then have "''updatedAt'' \<in> fst ` set (map (\<lambda>(k, v). (k, placeholder k)) (supplied es))"
    by force
  then show ?thesis
    by (simp add: update_request_def updateUser_loop_closed image_iff)
qed

lemma update_request_refused_key:
  assumes "(k, v) \<in> set es" and "k \<noteq> ''userId''" and "refuses s k"
  shows "\<not> accepted s (fst (update_request now es))"
proof -
  from assms(1,2) have "(k, v) \<in> set (supplied es)"
    by (simp add: supplied_def)
  then have "(k, placeholder k) \<in> set (map (\<lambda>(k, v). (k, placeholder k)) (supplied es))"
    by force
  with assms(3) show ?thesis
    by (auto simp: accepted_def update_request_def updateUser_loop_closed list_all_iff)
qed

lemma updateUser_refused:
  assumes "quiet 2 (script s)" and "table s u = Some it"
    and "\<not> accepted s (fst (update_request (now_seconds s) es))"
  shows "updateUser u (JObj es) s =
           (s\<lparr>script := tl (tl (script s)),
              sent := sent s @
                [GetCommand (''userId'', JStr u),
                 UpdateCommand (''userId'', JStr u) (fst (update_request (now_seconds s) es))
                   (snd (update_request (now_seconds s) es))]\<rparr>,
            Inl (Exn ''ValidationException''))"
proof -
  obtain cl vals where r: "update_request (now_seconds s) es = (cl, vals)"
    by (cases "update_request (now_seconds s) es")
  from assms(1) have q1: "env_next s = Quiet" and q2: "quiet (Suc 0) (tl (script s))"
    by (simp_all add: numeral_2_eq_2 quiet_env_next quiet_tl)
  let ?s1 = "s\<lparr>script := tl (script s), sent := sent s @ [GetCommand (''userId'', JStr u)]\<rparr>"
  have g: "send (GetCommand (''userId'', JStr u)) s = (?s1, Inr \<lparr>Item = Some it, Attributes = None\<rparr>)"
    using q1 assms(2) by (simp add: send_Get_Quiet)
  have "env_next ?s1 = Quiet"
    using q2 by (simp add: quiet_env_next)
  moreover have "\<not> accepted ?s1 cl"
    using assms(3) r by simp
  ultimately have p: "send (UpdateCommand (''userId'', JStr u) cl vals) ?s1 =
      (?s1\<lparr>script := tl (script ?s1),
            sent := sent ?s1 @ [UpdateCommand (''userId'', JStr u) cl vals]\<rparr>,
       Inl (Exn ''ValidationException''))"
    by (rule send_Update_refused)
  show ?thesis
    by (simp add: updateUser_def user_key_def g r p)
qed

lemma updateUser_applies:
  assumes "quiet 2 (script s)" and "table s u = Some it"
    and "distinct (map fst es)" and "''updatedAt'' \<notin> fst ` set es"
    and "\<not> refuses s ''updatedAt''" and "\<forall>k \<in> fst ` set es. \<not> refuses s k"
  shows "\<exists>new. updateUser u (JObj es) s =
           (s\<lparr>table := (table s)(u \<mapsto> new), script := tl (tl (script s)),
              sent := sent s @
                [GetCommand (''userId'', JStr u),
                 UpdateCommand (''userId'', JStr u) (fst (update_request (now_seconds s) es))
                   (snd (update_request (now_seconds s) es))]\<rparr>,
            Inr \<lparr>statusCode = 200, body = JObj new\<rparr>)
         \<and> map_of new ''updatedAt'' = Some (JNum (now_seconds s))
         \<and> map_of new ''userId'' = map_of it ''userId''
         \<and> (\<forall>(k, v) \<in> set es. k \<noteq> ''userId'' \<longrightarrow> map_of new k = Some v)
         \<and> (\<forall>a. a \<noteq> ''updatedAt'' \<longrightarrow> a \<notin> fst ` set es \<longrightarrow> map_of new a = map_of it a)"
proof -
  obtain cl vals where r: "update_request (now_seconds s) es = (cl, vals)"
    by (cases "update_request (now_seconds s) es")
  note v = update_request_values [OF assms(3,4) r]
  have sup: "(k, p) \<in> set (map (\<lambda>(k, v). (k, placeholder k)) (supplied es)) \<longleftrightarrow>
             p = placeholder k \<and> k \<noteq> ''userId'' \<and> k \<in> fst ` set es" for k p
    by (force simp: supplied_def)
  have "map_of vals p \<noteq> None" if "(a, p) \<in> set cl" for a p
  proof -
    from that consider "a = ''updatedAt''" "p = '':updatedAt''"
      | "p = placeholder a" "a \<noteq> ''userId''" "a \<in> fst ` set es"
      unfolding v(1) using sup [of a p] by auto
    then show ?thesis
    proof cases
      case 1
      with v(3) show ?thesis by simp
    next
      case 2
      then obtain w where "(a, w) \<in> set es" by force
      from v(4) [OF this 2(2)] 2(1) show ?thesis by simp
    qed
  qed
  then have defined: "\<forall>(a, p) \<in> set cl. map_of vals p \<noteq> None"
    by blast
  from apply_set_result [OF v(2) defined, of it]
  obtain new where new: "apply_set cl vals it = Some new"
    and m: "\<And>a. map_of new a =
        (case map_of cl a of Some p \<Rightarrow> map_of vals p | None \<Rightarrow> map_of it a)"
    by blast
  have cl_in: "map_of cl a = Some p \<longleftrightarrow> (a, p) \<in> set cl" for a p
    using v(2) by simp
  have "(''updatedAt'', '':updatedAt'') \<in> set cl"
    unfolding v(1) by simp
  then have cl_upd: "map_of cl ''updatedAt'' = Some '':updatedAt''"
    by (simp only: cl_in)
  have cl_key: "map_of cl k = Some (placeholder k)" if "(k, w) \<in> set es" and "k \<noteq> ''userId''" for k w
  proof -
    from that(1) have "k \<in> fst ` set es" by force
    with that(2) have "(k, placeholder k) \<in> set (map (\<lambda>(k, v). (k, placeholder k)) (supplied es))"
      by (simp only: sup simp_thms)
    then have "(k, placeholder k) \<in> set cl"
      unfolding v(1) by simp
    then show ?thesis
      by (simp only: cl_in)
  qed
  have cl_none: "map_of cl a = None" if "a \<noteq> ''updatedAt''" and "a \<notin> fst ` set es \<or> a = ''userId''" for a
  proof (cases "map_of cl a")
    case None
    then show ?thesis .
  next
    case (Some p)
    then have "(a, p) \<in> set cl" by (simp only: cl_in)
    with that(1) have "(a, p) \<in> set (map (\<lambda>(k, v). (k, placeholder k)) (supplied es))"
      unfolding v(1) by simp
    then have "a \<noteq> ''userId'' \<and> a \<in> fst ` set es"
      by (simp only: sup simp_thms)
    with that(2) show ?thesis by blast
  qed
  from assms(1) have q1: "env_next s = Quiet" and q2: "quiet (Suc 0) (tl (script s))"
    by (simp_all add: numeral_2_eq_2 quiet_env_next quiet_tl)
  let ?s1 = "s\<lparr>script := tl (script s), sent := sent s @ [GetCommand (''userId'', JStr u)]\<rparr>"
  have g: "send (GetCommand (''userId'', JStr u)) s = (?s1, Inr \<lparr>Item = Some it, Attributes = None\<rparr>)"
    using q1 assms(2) by (simp add: send_Get_Quiet)
  have "\<not> refuses s a" if "(a, p) \<in> set cl" for a p
  proof -
    from that consider "a = ''updatedAt''" | "a \<in> fst ` set es"
      unfolding v(1) using sup [of a p] by auto
    then show ?thesis
      using assms(5,6) by cases blast+
  qed
  then have ok: "accepted ?s1 cl"
    using v(2) by (auto simp: accepted_def list_all_iff)
  have "env_next ?s1 = Quiet"
    using q2 by (simp add: quiet_env_next)
  moreover have "table ?s1 u = Some it"
    using assms(2) by simp
  ultimately have p: "send (UpdateCommand (''userId'', JStr u) cl vals) ?s1 =
      (?s1\<lparr>table := (table ?s1)(u \<mapsto> new), script := tl (script ?s1),
            sent := sent ?s1 @ [UpdateCommand (''userId'', JStr u) cl vals]\<rparr>,
       Inr \<lparr>Item = None, Attributes = Some new\<rparr>)"
    using ok new by (rule send_Update_Quiet)
  have run: "updateUser u (JObj es) s =
           (s\<lparr>table := (table s)(u \<mapsto> new), script := tl (tl (script s)),
              sent := sent s @
                [GetCommand (''userId'', JStr u),
                 UpdateCommand (''userId'', JStr u) (fst (update_request (now_seconds s) es))
                   (snd (update_request (now_seconds s) es))]\<rparr>,
            Inr \<lparr>statusCode = 200, body = JObj new\<rparr>)"
    by (simp add: updateUser_def user_key_def g r p)
  have "map_of new ''updatedAt'' = Some (JNum (now_seconds s))"
    by (simp add: m cl_upd v(3))
  moreover have "map_of new ''userId'' = map_of it ''userId''"
    by (simp add: m cl_none)
  moreover have "\<forall>(k, w) \<in> set es. k \<noteq> ''userId'' \<longrightarrow> map_of new k = Some w"
    by (auto simp: m cl_key v(4))
  moreover have "\<forall>a. a \<noteq> ''updatedAt'' \<longrightarrow> a \<notin> fst ` set es \<longrightarrow> map_of new a = map_of it a"
    by (simp add: m cl_none)
  ultimately show ?thesis
    using run by blast
qed

lemma updateUser_not_found:
  assumes "env_next s = Quiet" and "table s userId = None"
  shows "updateUser userId payload s =
         (s\<lparr>script := tl (script s), sent := sent s @ [GetCommand (''userId'', JStr userId)]\<rparr>,
          Inr \<lparr>statusCode = 404, body = JObj [(''error'', JStr ''User not found'')]\<rparr>)"
  using assms by (simp add: updateUser_def user_key_def send_Get_Quiet error_body_def)

text \<open>
  C6, at \<^verbatim>\<open>PUT /users/u1\<close> with the body \<^verbatim>\<open>{"updatedAt":5}\<close>, on a stored record, at the time
  1704067200. The loop over the body skips \<^verbatim>\<open>userId\<close> only: for the key \<^verbatim>\<open>updatedAt\<close> it adds a
  second clause \<^verbatim>\<open>updatedAt = :updatedAt\<close> and overwrites the placeholder \<^verbatim>\<open>:updatedAt\<close>, which
  held the current time, with the caller's 5. The command sent names \<^verbatim>\<open>updatedAt\<close> twice and
  carries 5, not the time; the store refuses it, the handler answers the generic 500, and the
  record is as it was: \<^verbatim>\<open>updatedAt\<close> has not been set to the current time. (The same refusal
  meets every body with the key \<^verbatim>\<open>updatedAt\<close> and every body with a key the store refuses bare:
  \<open>update_request_overlap\<close>, \<open>update_request_refused_key\<close>, \<open>updateUser_refused\<close>. For the
  other bodies the update sets \<^verbatim>\<open>updatedAt\<close> to the current time, keeps the identifier and
  applies the fields as given, and a missing record gives 404 from the read alone:
  \<open>updateUser_applies\<close>, \<open>update_request_skips_userId\<close>, \<open>updateUser_not_found\<close>.)
\<close>

theorem updateUser_caller_updatedAt_refused:
  \<open>users_handler example_parse (put_event ''u1'' ''{"updatedAt":5}'') (start [(''u1'', stored_u1)] []) =
     ((start [(''u1'', stored_u1)] [])
        \<lparr>sent := [GetCommand (''userId'', JStr ''u1''),
                  UpdateCommand (''userId'', JStr ''u1'')
                    [(''updatedAt'', '':updatedAt''), (''updatedAt'', '':updatedAt'')]
                    [('':updatedAt'', JNum 5)]]\<rparr>,
      Inr \<lparr>statusCode = 500, body = JObj [(''error'', JStr ''Internal server error'')]\<rparr>)
   \<and> now_seconds (start [(''u1'', stored_u1)] []) = 1704067200
   \<and> table (fst (users_handler example_parse (put_event ''u1'' ''{"updatedAt":5}'')
                    (start [(''u1'', stored_u1)] []))) ''u1'' = Some stored_u1
   \<and> map_of stored_u1 ''updatedAt'' = None\<close>
  by (simp add: users_handler_def users_switch_def parse_body_def put_event_def path_param_def
      example_parse_def updateUser_def send_def env_next_def start_def user_key_def accepted_def
      update_request_def placeholder_def now_seconds_def stored_u1_def catch_all_def error_body_def)

section \<open>The handler boundary\<close>

lemma parse_body_rejected:
  "rawBody ev = Some b \<Longrightarrow> b \<noteq> [] \<Longrightarrow> JSON_parse b = None \<Longrightarrow>
   parse_body JSON_parse ev = Inl (Exn ''SyntaxError'')"
  by (simp add: parse_body_def)

lemma handler_catches_switch:
  "parse_body JSON_parse ev = Inr payload \<Longrightarrow>
   (\<exists>s' r. users_handler JSON_parse ev s = (s', Inr r))
   \<and> (\<exists>s' r. assets_handler JSON_parse getSignedUrl bucketName ev s = (s', Inr r))"
  by (auto simp: users_handler_def assets_handler_def catch_all_def split: prod.splits sum.splits)

text \<open>
  C7, at a request whose body is not JSON. Both handlers call \<^verbatim>\<open>JSON.parse\<close> on the body before
  they enter their \<^verbatim>\<open>try\<close> block, so the SyntaxError it throws is not turned into the 500
  response: it leaves the handler. (What is thrown once the body has been parsed is caught, as
  \<open>handler_catches_switch\<close> shows.)
\<close>

theorem handler_propagates_parse_error:
  assumes "rawBody ev = Some b" and "b \<noteq> []" and "JSON_parse b = None"
  shows "users_handler JSON_parse ev s = (s, Inl (Exn ''SyntaxError''))
         \<and> assets_handler JSON_parse getSignedUrl bucketName ev s = (s, Inl (Exn ''SyntaxError''))"
  by (simp add: users_handler_def assets_handler_def
      parse_body_rejected [where JSON_parse = JSON_parse, OF assms])

theorem handler_propagates_parse_error_witness:
  "rawBody (post_event ''{'') = Some ''{'' \<and> ''{'' \<noteq> [] \<and> example_parse ''{'' = None
   \<and> users_handler example_parse (post_event ''{'') (start [] []) =
       (start [] [], Inl (Exn ''SyntaxError''))
   \<and> assets_handler example_parse signer ''bucket'' (post_event ''{'') (start [] []) =
       (start [] [], Inl (Exn ''SyntaxError''))"
proof -
  have h1: "rawBody (post_event ''{'') = Some ''{''" by (simp add: post_event_def)
  have h2: "''{'' \<noteq> []" by simp
  have h3: "example_parse ''{'' = None" by (simp add: example_parse_def)
  show ?thesis
    using h1 h2 h3
      handler_propagates_parse_error [where JSON_parse = example_parse and getSignedUrl = signer
        and bucketName = "''bucket''" and s = "start [] []", OF h1 h2 h3]
    by simp
qed

end
